theory Spec2Isabelle
  imports Main "HOL-Library.Word" "HOL-Library.Code_Target_Numeral"
begin

section \<open>Go library functions used by the program\<close>

text \<open>
  Go strings are byte sequences; they are modelled as HOL strings, one \<open>char\<close> per byte.
  The functions of this section belong to Go's standard library, not to the repository.
  They are written out from their documented behaviour so that the repository's own
  functions can be evaluated on concrete inputs.
\<close>

subsection \<open>strings.TrimSpace\<close>

definition asciiSpace :: "char \<Rightarrow> bool" where
  "asciiSpace c = (c = CHR 0x09 \<or> c = CHR 0x0A \<or> c = CHR 0x0B \<or> c = CHR 0x0C
     \<or> c = CHR 0x0D \<or> c = CHR 0x20)"

text \<open>
  The UTF-8 encodings of the runes beyond ASCII for which \<open>unicode.IsSpace\<close> holds:
  U+0085, U+00A0, U+1680, U+2000 to U+200A, U+2028, U+2029, U+202F, U+205F, U+3000.
\<close>

definition spaceEncodings :: "string list" where
  "spaceEncodings =
     [[CHR 0xC2, CHR 0x85], [CHR 0xC2, CHR 0xA0], [CHR 0xE1, CHR 0x9A, CHR 0x80],
      [CHR 0xE2, CHR 0x80, CHR 0x80], [CHR 0xE2, CHR 0x80, CHR 0x81],
      [CHR 0xE2, CHR 0x80, CHR 0x82], [CHR 0xE2, CHR 0x80, CHR 0x83],
      [CHR 0xE2, CHR 0x80, CHR 0x84], [CHR 0xE2, CHR 0x80, CHR 0x85],
      [CHR 0xE2, CHR 0x80, CHR 0x86], [CHR 0xE2, CHR 0x80, CHR 0x87],
      [CHR 0xE2, CHR 0x80, CHR 0x88], [CHR 0xE2, CHR 0x80, CHR 0x89],
      [CHR 0xE2, CHR 0x80, CHR 0x8A], [CHR 0xE2, CHR 0x80, CHR 0xA8],
      [CHR 0xE2, CHR 0x80, CHR 0xA9], [CHR 0xE2, CHR 0x80, CHR 0xAF],
      [CHR 0xE2, CHR 0x81, CHR 0x9F], [CHR 0xE3, CHR 0x80, CHR 0x80]]"

text \<open>The number of bytes of the whitespace rune a string starts with (0 when it starts with none).\<close>

definition leadingSpace :: "string \<Rightarrow> nat" where
  "leadingSpace s =
     (case s of
        [] \<Rightarrow> 0
      | c # cs \<Rightarrow>
          if asciiSpace c then 1
          else (case List.find (\<lambda>e. take (length e) s = e) spaceEncodings of
                  None \<Rightarrow> 0
                | Some e \<Rightarrow> length e))"

definition trailingSpace :: "string \<Rightarrow> nat" where
  "trailingSpace s =
     (case rev s of
        [] \<Rightarrow> 0
      | c # cs \<Rightarrow>
          if asciiSpace c then 1
          else (case List.find (\<lambda>e. drop (length s - length e) s = e) spaceEncodings of
                  None \<Rightarrow> 0
                | Some e \<Rightarrow> length e))"

function trimLeft :: "string \<Rightarrow> string" where
  "trimLeft s = (if leadingSpace s = 0 then s else trimLeft (drop (leadingSpace s) s))"
  by pat_completeness auto
termination
proof (relation "measure length")
  show "wf (measure length)" by simp
next
  fix s :: string
  assume "leadingSpace s \<noteq> 0"
  moreover have "leadingSpace [] = 0" by (simp add: leadingSpace_def)
  ultimately have "s \<noteq> []" by auto
  with \<open>leadingSpace s \<noteq> 0\<close> show "(drop (leadingSpace s) s, s) \<in> measure length"
    by simp
qed

declare trimLeft.simps [simp del]

function trimRight :: "string \<Rightarrow> string" where
  "trimRight s =
     (if trailingSpace s = 0 then s else trimRight (take (length s - trailingSpace s) s))"
  by pat_completeness auto
termination
proof (relation "measure length")
  show "wf (measure length)" by simp
next
  fix s :: string
  assume "trailingSpace s \<noteq> 0"
  moreover have "trailingSpace [] = 0" by (simp add: trailingSpace_def)
  ultimately have "s \<noteq> []" by auto
  with \<open>trailingSpace s \<noteq> 0\<close>
  show "(take (length s - trailingSpace s) s, s) \<in> measure length"
    by simp
qed

declare trimRight.simps [simp del]

definition strings_TrimSpace :: "string \<Rightarrow> string" where
  "strings_TrimSpace s = trimRight (trimLeft s)"

subsection \<open>strings.ToLower, filepath.Ext, filepath.Base\<close>

text \<open>
  \<open>strings.ToLower\<close> on the ASCII letters. Go maps the runes beyond ASCII through the
  Unicode case tables as well; the program only compares the result with ASCII constants.
\<close>

definition lowerChar :: "char \<Rightarrow> char" where
  "lowerChar c =
     (if (65::nat) \<le> of_char c \<and> of_char c \<le> (90::nat) then char_of (of_char c + (32::nat))
      else c)"

definition strings_ToLower :: "string \<Rightarrow> string" where
  "strings_ToLower s = map lowerChar s"

text \<open>
  \<open>filepath.Ext\<close> scans from the end of the path to the last slash and returns the
  suffix that starts at the first dot it meets; the empty string when there is none.
\<close>

fun extScan :: "string \<Rightarrow> string \<Rightarrow> string" where
  "extScan [] acc = []"
| "extScan (c # cs) acc =
     (if c = CHR ''/'' then []
      else if c = CHR ''.'' then c # acc
      else extScan cs (c # acc))"

definition filepath_Ext :: "string \<Rightarrow> string" where
  "filepath_Ext p = extScan (rev p) []"

text \<open>
  \<open>filepath.Base\<close>: the last element of the path, after trailing slashes are removed;
  a dot for the empty path and a slash for a path of slashes only.
\<close>

definition filepath_Base :: "string \<Rightarrow> string" where
  "filepath_Base p =
     (if p = [] then ''.''
      else
        let q = dropWhile (\<lambda>c. c = CHR ''/'') (rev p);
            b = rev (takeWhile (\<lambda>c. c \<noteq> CHR ''/'') q)
        in if b = [] then ''/'' else b)"

subsection \<open>fmt.Sprintf verbs\<close>

definition digitChar :: "nat \<Rightarrow> char" where
  "digitChar n = ''0123456789'' ! n"

function fmtNat :: "nat \<Rightarrow> string" where
  "fmtNat n = (if n < 10 then [digitChar n] else fmtNat (n div 10) @ [digitChar (n mod 10)])"
  by pat_completeness auto
termination
  by (relation "measure id") auto

declare fmtNat.simps [simp del]

text \<open>The verb \<open>%d\<close> on an integer.\<close>

definition fmtD :: "int \<Rightarrow> string" where
  "fmtD i = (if i < 0 then CHR ''-'' # fmtNat (nat (- i)) else fmtNat (nat i))"

text \<open>
  The conversion \<open>float64(n)\<close> of a non-negative 64-bit integer: exact below \<open>2^53\<close>, and
  rounded to 53 significant bits, ties to even, above. The result is again an integer.
\<close>

definition roundHalfEven :: "nat \<Rightarrow> nat \<Rightarrow> nat" where
  "roundHalfEven a b =
     (let q = a div b; r = a mod b
      in if 2 * r < b then q
         else if b < 2 * r then q + 1
         else if even q then q else q + 1)"

function bitLen :: "nat \<Rightarrow> nat" where
  "bitLen n = (if n = 0 then 0 else Suc (bitLen (n div 2)))"
  by pat_completeness auto
termination
  by (relation "measure id") auto

declare bitLen.simps [simp del]

definition float64OfNat :: "nat \<Rightarrow> nat" where
  "float64OfNat n =
     (if bitLen n \<le> 53 then n
      else let k = bitLen n - 53 in roundHalfEven n (2 ^ k) * 2 ^ k)"

text \<open>
  The verb \<open>%.1f\<close> on the quotient \<open>m / d\<close> of a non-negative float64 integer \<open>m\<close> by a
  power of two \<open>d\<close>. That division is exact in float64, and the verb prints the exact
  value rounded to one decimal, ties to even. \<open>fmtF1 m d\<close> is the text printed.
\<close>

definition fmtF1 :: "nat \<Rightarrow> nat \<Rightarrow> string" where
  "fmtF1 m d =
     (let t = roundHalfEven (10 * m) d
      in fmtNat (t div 10) @ ''.'' @ [digitChar (t mod 10)])"

section \<open>Entries (internal/tui: Entry)\<close>

text \<open>
  \<open>data.FileMode\<close> comes from the storage library. The program asks it two questions,
  \<open>IsMount()\<close> and \<open>IsDir()\<close>; the model keeps the two answers.
\<close>

record FileMode =
  IsMount :: bool
  ModeIsDir :: bool

record Entry =
  Name :: string
  Path :: string
  Size :: "64 word"
  Mode :: FileMode
  ModTime :: int
  IsDir :: bool
  MimeType :: string

text \<open>
  The loop of \<open>DisplaySize\<close>:
  \<^verbatim>\<open>for n := e.Size / unit; n >= unit; n /= unit { div *= unit; exp++ }\<close>
\<close>

function scaleLoop :: "int \<Rightarrow> int \<Rightarrow> nat \<Rightarrow> int \<times> nat" where
  "scaleLoop n d ex =
     (if 1024 \<le> n then scaleLoop (n div 1024) (d * 1024) (Suc ex) else (d, ex))"
  by pat_completeness auto
termination
  by (relation "measure (\<lambda>(n, d, ex). nat n)") auto

declare scaleLoop.simps [simp del]

text \<open>
  \<open>DisplaySize\<close>. The index expression \<open>"KMGTPE"[exp]\<close> panics when \<open>exp\<close> is out of
  range; that outcome is the value \<open>None\<close>.
\<close>

definition DisplaySize :: "Entry \<Rightarrow> string option" where
  "DisplaySize e =
     (if IsMount (Mode e) then Some ''<MNT>''
      else if IsDir e then Some ''<DIR>''
      else
        let size = sint (Size e) in
        if size < 1024 then Some (fmtD size @ '' B'')
        else
          (case scaleLoop (size div 1024) 1024 0 of
             (d, ex) \<Rightarrow>
               if ex < length ''KMGTPE''
               then Some (fmtF1 (float64OfNat (nat size)) (nat d) @ '' ''
                            @ [''KMGTPE'' ! ex] @ ''B'')
               else None))"

text \<open>An entry that is neither a mount point nor a directory, and a sample file of a given size.\<close>

definition plainFile :: "Entry \<Rightarrow> bool" where
  "plainFile e = (\<not> IsMount (Mode e) \<and> \<not> IsDir e)"

definition sampleFile :: "64 word \<Rightarrow> Entry" where
  "sampleFile n =
     \<lparr>Name = ''sample.bin'', Path = ''/sample.bin'', Size = n,
      Mode = \<lparr>IsMount = False, ModeIsDir = False\<rparr>, ModTime = 0, IsDir = False,
      MimeType = []\<rparr>"

section \<open>The command-line tokenizer (internal/tui: parseCommandLine)\<close>

text \<open>
  The loop ranges over the runes of the line. The runes it tests for are ASCII, and every
  other rune is written back unchanged, so on well-formed UTF-8 the loop acts on the bytes
  one by one. The loop state is the four local variables.
\<close>

record TokState =
  args :: "string list"
  current :: string
  inQuote :: bool
  quoteChar :: char

definition tokInit :: TokState where
  "tokInit = \<lparr>args = [], current = [], inQuote = False, quoteChar = CHR 0x00\<rparr>"

definition tokStep :: "TokState \<Rightarrow> char \<Rightarrow> TokState" where
  "tokStep st ch =
     (if ch = CHR 0x22 \<or> ch = CHR 0x27 then
        (if inQuote st then
           (if ch = quoteChar st then st\<lparr>inQuote := False, quoteChar := CHR 0x00\<rparr>
            else st\<lparr>current := current st @ [ch]\<rparr>)
         else st\<lparr>inQuote := True, quoteChar := ch\<rparr>)
      else if ch = CHR 0x20 \<and> \<not> inQuote st then
        (if current st \<noteq> [] then st\<lparr>args := args st @ [current st], current := []\<rparr>
         else st)
      else st\<lparr>current := current st @ [ch]\<rparr>)"

definition tokFinish :: "TokState \<Rightarrow> string list" where
  "tokFinish st = (if current st \<noteq> [] then args st @ [current st] else args st)"

definition parseCommandLine :: "string \<Rightarrow> string list" where
  "parseCommandLine line = tokFinish (foldl tokStep tokInit line)"

text \<open>
  The words of the specification, for comparison with the loop: a line is cut at every
  space character, and the empty pieces are dropped.
\<close>

definition isQuote :: "char \<Rightarrow> bool" where
  "isQuote c = (c = CHR 0x22 \<or> c = CHR 0x27)"

definition quoteFree :: "string \<Rightarrow> bool" where
  "quoteFree cs = (CHR 0x22 \<notin> set cs \<and> CHR 0x27 \<notin> set cs)"

fun splitAtSpaces :: "string \<Rightarrow> string list" where
  "splitAtSpaces [] = [[]]"
| "splitAtSpaces (c # cs) =
     (if c = CHR 0x20 then [] # splitAtSpaces cs
      else (c # hd (splitAtSpaces cs)) # tl (splitAtSpaces cs))"

definition nonEmpty :: "string list \<Rightarrow> string list" where
  "nonEmpty ws = filter (\<lambda>w. w \<noteq> []) ws"

definition glue :: "string \<Rightarrow> string list \<Rightarrow> string list" where
  "glue cur ws = (cur @ hd ws) # tl ws"

text \<open>
  The words of the specification for every line, in two passes. The first pass consumes
  the quote characters and marks every other character as quoted or not: outside quotes
  a single or double quote opens a quoted stretch, inside a stretch the same character
  closes it and every other character, the other quote character included, is kept and
  marked as quoted; a stretch that is never closed runs to the end of the line. The
  second pass cuts the marked line at the spaces that are not quoted and drops the
  empty pieces.
\<close>

fun mark :: "char option \<Rightarrow> string \<Rightarrow> (char \<times> bool) list" where
  "mark q [] = []"
| "mark None (c # cs) = (if isQuote c then mark (Some c) cs else (c, False) # mark None cs)"
| "mark (Some q) (c # cs) = (if c = q then mark None cs else (c, True) # mark (Some q) cs)"

fun splitMarked :: "(char \<times> bool) list \<Rightarrow> string list" where
  "splitMarked [] = [[]]"
| "splitMarked (x # xs) =
     (if x = (CHR 0x20, False) then [] # splitMarked xs
      else (fst x # hd (splitMarked xs)) # tl (splitMarked xs))"

definition specTokens :: "string \<Rightarrow> string list" where
  "specTokens line = nonEmpty (splitMarked (mark None line))"

text \<open>The quote character that is open in a state of the loop, if any.\<close>

definition openQuote :: "TokState \<Rightarrow> char option" where
  "openQuote st = (if inQuote st then Some (quoteChar st) else None)"

section \<open>The storage collaborator and the libraries of the preview pipeline\<close>

text \<open>
  The virtual file system (\<open>github.com/mwantia/vfs\<close>) is outside the repository. The model
  takes it as a record of functions and holds for every such record. An error is the text
  of its message. An opened file is the byte sequence its reads deliver, together with how
  the stream ends: at end of file, or with a read error.
\<close>

record Metadata =
  Key :: string
  MetaSize :: "64 word"
  MetaMode :: FileMode
  ModifyTime :: int
  ContentType :: string

datatype StreamEnd = AtEOF | ReadFails string

type_synonym FileStream = "string \<times> StreamEnd"

record VFS =
  StatMetadata :: "string \<Rightarrow> string + Metadata"
  OpenFile :: "string \<Rightarrow> string + FileStream"
  ReadDirectory :: "string \<Rightarrow> string + Metadata list"
  Execute :: "string list \<Rightarrow> string \<times> int \<times> string option"

text \<open>
  The image libraries (\<open>image.Decode\<close>, the Catmull-Rom scaler and \<open>ansimage\<close>) are
  outside the repository as well: decoding yields the format name and the pixel
  dimensions or fails, and rendering the scaled picture yields text or fails.
\<close>

record DecodedImage =
  Format :: string
  ImgWidth :: int
  ImgHeight :: int

record ImageLib =
  ImageDecode :: "FileStream \<Rightarrow> string + DecodedImage"
  AnsiRender :: "FileStream \<Rightarrow> DecodedImage \<Rightarrow> string + string"

text \<open>
  The calls a preview makes on its collaborators, in order. The log makes it possible to
  say that a file was stat-ed, or that it was never decoded.
\<close>

datatype IOCall = CallStat string | CallOpen string | CallRead string nat | CallDecode string

record PreviewOut =
  content :: string
  err :: "string option"
  calls :: "IOCall list"

text \<open>
  \<open>io.ReadFull(file, buf)\<close> with a buffer of \<open>n\<close> bytes: the bytes read and the error.
\<close>

datatype ReadErr = EOF | ErrUnexpectedEOF | OtherErr string

definition io_ReadFull :: "FileStream \<Rightarrow> nat \<Rightarrow> string \<times> ReadErr option" where
  "io_ReadFull f n =
     (case f of
        (bytes, ending) \<Rightarrow>
          if n \<le> length bytes then (take n bytes, None)
          else (bytes,
                Some (case ending of
                        ReadFails e \<Rightarrow> OtherErr e
                      | AtEOF \<Rightarrow> if bytes = [] then EOF else ErrUnexpectedEOF)))"

text \<open>
  \<open>utf8.Valid\<close>: the byte sequence is a concatenation of well-formed UTF-8 encodings
  (no overlong forms, no surrogates, nothing beyond U+10FFFF).
\<close>

definition inRange :: "char \<Rightarrow> nat \<Rightarrow> nat \<Rightarrow> bool" where
  "inRange c lo hi = (lo \<le> of_char c \<and> of_char c \<le> hi)"

fun utf8_Valid :: "string \<Rightarrow> bool" where
  "utf8_Valid [] = True"
| "utf8_Valid (a # rest) =
     (if inRange a 0x00 0x7F then utf8_Valid rest
      else if inRange a 0xC2 0xDF then
        (case rest of
           b # r \<Rightarrow> inRange b 0x80 0xBF \<and> utf8_Valid r
         | _ \<Rightarrow> False)
      else if inRange a 0xE0 0xEF then
        (case rest of
           b # c # r \<Rightarrow>
             inRange b (if a = CHR 0xE0 then 0xA0 else 0x80) (if a = CHR 0xED then 0x9F else 0xBF)
             \<and> inRange c 0x80 0xBF \<and> utf8_Valid r
         | _ \<Rightarrow> False)
      else if inRange a 0xF0 0xF4 then
        (case rest of
           b # c # d # r \<Rightarrow>
             inRange b (if a = CHR 0xF0 then 0x90 else 0x80) (if a = CHR 0xF4 then 0x8F else 0xBF)
             \<and> inRange c 0x80 0xBF \<and> inRange d 0x80 0xBF \<and> utf8_Valid r
         | _ \<Rightarrow> False)
      else False)"

text \<open>
  \<open>hex.Dumper\<close>: lines of sixteen bytes, each with the offset in eight hex digits, the
  bytes in hex with an extra space after the eighth, and the printable characters between
  bars.
\<close>

definition hexByte :: "nat \<Rightarrow> string" where
  "hexByte b = [''0123456789abcdef'' ! (b div 16 mod 16), ''0123456789abcdef'' ! (b mod 16)]"

definition hexOffset :: "nat \<Rightarrow> string" where
  "hexOffset n =
     hexByte (n div 16777216 mod 256) @ hexByte (n div 65536 mod 256)
       @ hexByte (n div 256 mod 256) @ hexByte (n mod 256)"

definition toChar :: "char \<Rightarrow> char" where
  "toChar c = (if of_char c < (32::nat) \<or> (126::nat) < of_char c then CHR ''.'' else c)"

definition dumpCell :: "string \<Rightarrow> nat \<Rightarrow> string" where
  "dumpCell chunk i =
     (if i < length chunk then hexByte (of_char (chunk ! i)) @ '' '' else ''   '')
       @ (if i = 7 then '' '' else if i = 15 then '' |'' else [])"

definition dumpLine :: "nat \<Rightarrow> string \<Rightarrow> string" where
  "dumpLine off chunk =
     hexOffset off @ ''  '' @ concat (map (dumpCell chunk) [0..<16])
       @ map toChar chunk @ ''|'' @ [CHR 0x0A]"

function hexDumpFrom :: "nat \<Rightarrow> string \<Rightarrow> string" where
  "hexDumpFrom off bytes =
     (if bytes = [] then []
      else dumpLine off (take 16 bytes) @ hexDumpFrom (off + 16) (drop 16 bytes))"
  by pat_completeness auto
termination
  by (relation "measure (\<lambda>(off, bytes). length bytes)") auto

declare hexDumpFrom.simps [simp del]

definition hex_Dump :: "string \<Rightarrow> string" where
  "hex_Dump bytes = hexDumpFrom 0 bytes"

section \<open>The preview pipeline (internal/tui: DetectFileType to GeneratePreview)\<close>

datatype PreviewType = PreviewText | PreviewImage | PreviewBinary | PreviewUnsupported

record FileTypeInfo =
  Type :: PreviewType
  Description :: string

text \<open>
  The three extension tables of \<open>DetectFileType\<close>, as the lists of their keys (every key
  maps to \<open>true\<close>). The table of image extensions is empty in the source.
\<close>

definition imageExts :: "string list" where
  "imageExts = []"

definition textExts :: "string list" where
  "textExts =
     [''.txt'', ''.md'', ''.go'', ''.js'', ''.py'', ''.java'', ''.c'', ''.cpp'',
      ''.h'', ''.hpp'', ''.rs'', ''.sh'', ''.bash'', ''.zsh'', ''.fish'',
      ''.json'', ''.xml'', ''.yaml'', ''.yml'', ''.toml'', ''.ini'', ''.cfg'', ''.conf'',
      ''.html'', ''.css'', ''.scss'', ''.sass'', ''.sql'', ''.log'', ''.csv'', ''.tsv'',
      ''.gitignore'', ''.dockerfile'', ''.env'']"

definition binaryExts :: "string list" where
  "binaryExts =
     [''.zip'', ''.gz'', ''.tar'', ''.bz2'', ''.7z'', ''.rar'', ''.xz'',
      ''.exe'', ''.dll'', ''.so'', ''.dylib'', ''.bin'', ''.dat'', ''.db'', ''.sqlite'',
      ''.pdf'', ''.doc'', ''.docx'', ''.xls'', ''.xlsx'', ''.ppt'', ''.pptx'',
      ''.mp3'', ''.mp4'', ''.avi'', ''.mkv'', ''.wav'', ''.flac'', ''.ogg'',
      ''.png'', ''.jpg'', ''.jpeg'', ''.gif'', ''.bmp'', ''.webp'']"

definition DetectFileType :: "string \<Rightarrow> FileTypeInfo" where
  "DetectFileType filename =
     (let ext = strings_ToLower (filepath_Ext filename) in
      if ext \<in> set imageExts then \<lparr>Type = PreviewImage, Description = ''Image file''\<rparr>
      else if ext \<in> set textExts then \<lparr>Type = PreviewText, Description = ''Text file''\<rparr>
      else if ext \<in> set binaryExts then \<lparr>Type = PreviewBinary, Description = ''Binary file''\<rparr>
      else if ext = [] \<or> ext = filename then \<lparr>Type = PreviewText, Description = ''Unknown type''\<rparr>
      else \<lparr>Type = PreviewText, Description = ''Unknown text file''\<rparr>)"

text \<open>
  \<open>isValidUTF8\<close>. Its last line compares \<open>float64(count) / float64(len(data))\<close> with
  \<open>0.05\<close>. For empty data the quotient is \<open>0/0\<close>, a NaN, and every comparison with a NaN
  is false. For non-empty data of at most a few thousand bytes the quotient of the two
  small integers is below the float64 constant \<open>0.05\<close> exactly when \<open>20 * count < len\<close>:
  at equality the division rounds to the very constant, and otherwise the quotient
  differs from one twentieth by far more than a rounding error.
\<close>

definition ratioBelowFivePercent :: "nat \<Rightarrow> nat \<Rightarrow> bool" where
  "ratioBelowFivePercent c l = (if l = 0 then False else 20 * c < l)"

definition controlChar :: "char \<Rightarrow> bool" where
  "controlChar b =
     (of_char b < (32::nat) \<and> b \<noteq> CHR 0x09 \<and> b \<noteq> CHR 0x0A \<and> b \<noteq> CHR 0x0D)"

definition isValidUTF8 :: "string \<Rightarrow> bool" where
  "isValidUTF8 data =
     (if \<not> utf8_Valid data then False
      else ratioBelowFivePercent (length (filter controlChar data)) (length data))"

definition GenerateTextPreview :: "VFS \<Rightarrow> string \<Rightarrow> nat \<Rightarrow> PreviewOut" where
  "GenerateTextPreview vfs path maxBytes =
     (case OpenFile vfs path of
        Inl e \<Rightarrow> \<lparr>content = [], err = Some e, calls = [CallOpen path]\<rparr>
      | Inr file \<Rightarrow>
          (case io_ReadFull file maxBytes of
             (buf, Some (OtherErr e)) \<Rightarrow>
               \<lparr>content = [], err = Some e, calls = [CallOpen path, CallRead path maxBytes]\<rparr>
           | (buf, _) \<Rightarrow>
               if \<not> isValidUTF8 buf
               then \<lparr>content = ''[Binary file - cannot preview as text]'', err = None,
                      calls = [CallOpen path, CallRead path maxBytes]\<rparr>
               else \<lparr>content = buf, err = None,
                      calls = [CallOpen path, CallRead path maxBytes]\<rparr>))"

definition maxImageSize :: int where
  "maxImageSize = 5 * 1024 * 1024"

definition tooLargeMessage :: "int \<Rightarrow> string" where
  "tooLargeMessage n =
     ''[Image too large to preview: '' @ fmtF1 (float64OfNat (nat n)) (1024 * 1024)
       @ '' MB]'' @ [CHR 0x0A, CHR 0x0A] @ ''Use a dedicated image viewer for files > 5MB''"

definition GenerateImagePreview ::
    "VFS \<Rightarrow> ImageLib \<Rightarrow> string \<Rightarrow> int \<Rightarrow> int \<Rightarrow> PreviewOut" where
  "GenerateImagePreview vfs lib path previewWidth previewHeight =
     (case StatMetadata vfs path of
        Inl e \<Rightarrow>
          \<lparr>content = [], err = Some (''failed to stat image: '' @ e), calls = [CallStat path]\<rparr>
      | Inr stat \<Rightarrow>
          if maxImageSize < sint (MetaSize stat)
          then \<lparr>content = tooLargeMessage (sint (MetaSize stat)), err = None,
                 calls = [CallStat path]\<rparr>
          else
            (case OpenFile vfs path of
               Inl e \<Rightarrow>
                 \<lparr>content = [], err = Some (''failed to open image: '' @ e),
                  calls = [CallStat path, CallOpen path]\<rparr>
             | Inr file \<Rightarrow>
                 (case ImageDecode lib file of
                    Inl e \<Rightarrow>
                      \<lparr>content = [], err = Some (''failed to decode image: '' @ e),
                       calls = [CallStat path, CallOpen path, CallDecode path]\<rparr>
                  | Inr img \<Rightarrow>
                      (case AnsiRender lib file img of
                         Inl e \<Rightarrow>
                           \<lparr>content = [], err = Some (''failed to create ANSI image: '' @ e),
                            calls = [CallStat path, CallOpen path, CallDecode path]\<rparr>
                       | Inr rendered \<Rightarrow>
                           \<lparr>content =
                              ''Image: '' @ Format img @ '' format, '' @ fmtD (ImgWidth img)
                                @ ''x'' @ fmtD (ImgHeight img) @ '' pixels''
                                @ [CHR 0x0A, CHR 0x0A] @ rendered,
                            err = None,
                            calls = [CallStat path, CallOpen path, CallDecode path]\<rparr>))))"

definition GenerateBinaryPreview :: "VFS \<Rightarrow> string \<Rightarrow> nat \<Rightarrow> PreviewOut" where
  "GenerateBinaryPreview vfs path maxBytes =
     (case OpenFile vfs path of
        Inl e \<Rightarrow> \<lparr>content = [], err = Some e, calls = [CallOpen path]\<rparr>
      | Inr file \<Rightarrow>
          (case StatMetadata vfs path of
             Inl e \<Rightarrow> \<lparr>content = [], err = Some e, calls = [CallOpen path, CallStat path]\<rparr>
           | Inr stat \<Rightarrow>
               (case io_ReadFull file 512 of
                  (buf, Some (OtherErr e)) \<Rightarrow>
                    \<lparr>content = [], err = Some e,
                     calls = [CallOpen path, CallStat path, CallRead path 512]\<rparr>
                | (buf, _) \<Rightarrow>
                    (let dumpSize = min maxBytes (length buf) in
                     \<lparr>content =
                        ''Binary file: '' @ filepath_Base path @ [CHR 0x0A]
                          @ ''Size: '' @ fmtD (sint (MetaSize stat)) @ '' bytes''
                          @ [CHR 0x0A, CHR 0x0A]
                          @ ''Hex dump (first 512 bytes):'' @ [CHR 0x0A]
                          @ replicate 60 (CHR ''-'') @ [CHR 0x0A]
                          @ hex_Dump (take dumpSize buf)
                          @ (if int dumpSize < sint (MetaSize stat)
                             then [CHR 0x0A] @ ''... (truncated)'' else []),
                      err = None,
                      calls = [CallOpen path, CallStat path, CallRead path 512]\<rparr>))))"

definition GeneratePreview ::
    "VFS \<Rightarrow> ImageLib \<Rightarrow> string \<Rightarrow> int \<Rightarrow> int \<Rightarrow> PreviewOut" where
  "GeneratePreview vfs lib path previewWidth previewHeight =
     (let fileInfo = DetectFileType path in
      case Type fileInfo of
        PreviewText \<Rightarrow> GenerateTextPreview vfs path 10240
      | PreviewImage \<Rightarrow>
          (let img = GenerateImagePreview vfs lib path previewWidth previewHeight in
           if err img \<noteq> None
           then (let bin = GenerateBinaryPreview vfs path 1024
                 in bin\<lparr>calls := calls img @ calls bin\<rparr>)
           else img)
      | PreviewBinary \<Rightarrow> GenerateBinaryPreview vfs path 1024
      | PreviewUnsupported \<Rightarrow>
          \<lparr>content = ''[Cannot preview '' @ Description fileInfo @ '' files]'', err = None,
           calls = []\<rparr>)"

section \<open>The interaction state machine (internal/tui: Model)\<close>

datatype Mode = ModeNormal | ModeCommand | ModeInput | ModeHelp | ModeTerminal

datatype InputType = InputNewFile | InputNewDir | InputRename | InputDelete | InputCommand

text \<open>
  A terminal entry. Its field \<open>Path\<close> is called \<open>TermPath\<close> here, the name \<open>Path\<close> being
  taken by the entries of the file list.
\<close>

record TerminalEntry =
  Number :: int
  TermPath :: string
  Command :: string
  Output :: string
  Error :: string

text \<open>
  The single-line text input of the \<open>bubbles\<close> library, by the state the program reads
  and writes: its value, its placeholder and whether it has the focus.
\<close>

record TextInput =
  Value :: string
  Placeholder :: string
  Focused :: bool
  CharLimit :: int

text \<open>
  The model. Go's \<open>int\<close> is modelled as \<open>int\<close>: the integers of the model count list
  positions, terminal rows and dispatched tasks, far from the 64-bit bounds. The fields
  \<open>adapter\<close>, \<open>theme\<close> and \<open>keys\<close> never change and are left out; of \<open>help\<close> the width
  is kept.
\<close>

record Model =
  currentPath :: string
  previousDir :: string
  entries :: "Entry list"
  cursor :: int
  offset :: int
  width :: int
  height :: int
  helpWidth :: int
  showPreview :: bool
  previewContent :: string
  previewError :: "string option"
  previewGen :: int
  lastClickTime :: int
  lastClickY :: int
  fileListTop :: int
  mode :: Mode
  inputType :: InputType
  textInput :: TextInput
  statusMsg :: string
  errorMsg :: string
  commandOut :: string
  terminalHistory :: "TerminalEntry list"
  terminalOffset :: int
  commandCounter :: int
  clipboard :: string
  showFullHelp :: bool

text \<open>
  Messages. Of a key press the program reads \<open>msg.Type\<close> and \<open>msg.String()\<close>; of a mouse
  event the row, the action and the button. \<open>OtherMsg\<close> stands for every message type
  the type switch of \<open>Update\<close> does not name (the cursor blink, for one).
\<close>

datatype KeyType = KeyEscape | KeyEnter | KeyOtherType

datatype KeyMsg = KeyMsg (keyType: KeyType) (keyString: string)

datatype MouseAction = MouseActionPress | MouseActionRelease | MouseActionMotion

datatype MouseButton =
  MouseButtonNone | MouseButtonLeft | MouseButtonMiddle | MouseButtonRight
  | MouseButtonWheelUp | MouseButtonWheelDown | MouseButtonOther

datatype MouseMsg = MouseMsg (mouseX: int) (mouseY: int) (mouseAction: MouseAction)
  (mouseButton: MouseButton)

datatype Msg =
  WindowSizeMsg int int
  | DirectoryLoadedMsg "Entry list"
  | PreviewLoadedMsg string "string option" int
  | CommandExecutedMsg string string
  | ErrorMsg string
  | KeyPress KeyMsg
  | MousePress MouseMsg
  | OtherMsg nat

text \<open>
  Commands. A command of the source is a closure that runs later, off the processing
  path; the model names each closure and keeps what it captured. \<open>TerminalCmd\<close> holds
  the position in the history of the entry the closure points to.
\<close>

datatype Cmd =
  NoCmd
  | QuitCmd
  | LoadDirectoryCmd
  | PreviewEmptyCmd int
  | PreviewFileCmd string int
  | CreateFileCmd string
  | CreateDirectoryCmd string
  | DeleteEntryCmd Entry
  | RenameEntryCmd Entry string
  | TerminalCmd nat string
  | ExecuteCmd string
  | TextInputCmd

text \<open>
  What the model takes from libraries it does not define: the update function of the
  text input, and \<open>filepath.Dir\<close> and \<open>filepath.Join\<close>.
\<close>

record Libs =
  TextInputUpdate :: "TextInput \<Rightarrow> Msg \<Rightarrow> TextInput"
  filepath_Dir :: "string \<Rightarrow> string"
  filepath_Join :: "string \<Rightarrow> string \<Rightarrow> string"

subsection \<open>The default key map\<close>

definition keys_Up :: "string list" where "keys_Up = [''up'', ''k'']"
definition keys_Down :: "string list" where "keys_Down = [''down'', ''j'']"
definition keys_PageUp :: "string list" where "keys_PageUp = [''pgup'', ''ctrl+u'']"
definition keys_PageDown :: "string list" where "keys_PageDown = [''pgdown'', ''ctrl+d'']"
definition keys_Top :: "string list" where "keys_Top = [''home'', ''g'']"
definition keys_Bottom :: "string list" where "keys_Bottom = [''end'', ''G'']"
definition keys_Enter :: "string list" where "keys_Enter = [''enter'', ''l'']"
definition keys_Back :: "string list" where "keys_Back = [''backspace'', ''h'']"
definition keys_Delete :: "string list" where "keys_Delete = [''d'', ''delete'']"
definition keys_Rename :: "string list" where "keys_Rename = [''r'']"
definition keys_Copy :: "string list" where "keys_Copy = [''y'']"
definition keys_NewFile :: "string list" where "keys_NewFile = [''n'']"
definition keys_NewDir :: "string list" where "keys_NewDir = [''N'']"
definition keys_TogglePreview :: "string list" where "keys_TogglePreview = [''p'']"
definition keys_Refresh :: "string list" where "keys_Refresh = [''ctrl+r'']"
definition keys_Command :: "string list" where "keys_Command = [''#'']"
definition keys_Quit :: "string list" where "keys_Quit = [''q'', ''ctrl+c'']"
definition keys_Help :: "string list" where "keys_Help = [''?'']"

text \<open>\<open>key.Matches\<close>: the text of the key is one of the keys of the binding.\<close>

definition key_Matches :: "KeyMsg \<Rightarrow> string list \<Rightarrow> bool" where
  "key_Matches msg binding = (keyString msg \<in> set binding)"

subsection \<open>The model's operations\<close>

definition NewModel :: Model where
  "NewModel =
     \<lparr>currentPath = ''/'', previousDir = [], entries = [], cursor = 0, offset = 0,
      width = 0, height = 0, helpWidth = 0, showPreview = True, previewContent = [],
      previewError = None, previewGen = 0, lastClickTime = 0, lastClickY = 0,
      fileListTop = 0, mode = ModeNormal, inputType = InputNewFile,
      textInput = \<lparr>Value = [], Placeholder = [], Focused = False, CharLimit = 256\<rparr>,
      statusMsg = [], errorMsg = [], commandOut = [], terminalHistory = [],
      terminalOffset = 0, commandCounter = 0, clipboard = [], showFullHelp = False\<rparr>"

definition getVisibleLines :: "Model \<Rightarrow> int" where
  "getVisibleLines m = (let available = height m - 8 in if available < 5 then 5 else available)"

definition currentEntry :: "Model \<Rightarrow> Entry option" where
  "currentEntry m =
     (if 0 \<le> cursor m \<and> cursor m < int (length (entries m))
      then Some (entries m ! nat (cursor m)) else None)"

definition moveCursor :: "Model \<Rightarrow> int \<Rightarrow> Model" where
  "moveCursor m delta =
     (if length (entries m) = 0 then m
      else
        let c0 = cursor m + delta;
            c1 = (if c0 < 0 then 0 else c0);
            c2 = (if int (length (entries m)) \<le> c1 then int (length (entries m)) - 1 else c1);
            visibleLines = getVisibleLines m;
            o1 = (if c2 < offset m then c2 else offset m);
            o2 = (if o1 + visibleLines \<le> c2 then c2 - visibleLines + 1 else o1)
        in m\<lparr>cursor := c2, offset := o2\<rparr>)"

definition updatePreview :: "Model \<Rightarrow> Model \<times> Cmd" where
  "updatePreview m =
     (if \<not> showPreview m then (m, NoCmd)
      else
        let entry = currentEntry m;
            m1 = m\<lparr>previewGen := previewGen m + 1\<rparr>;
            currentGen = previewGen m1
        in case entry of
             None \<Rightarrow> (m1, PreviewEmptyCmd currentGen)
           | Some e \<Rightarrow>
               if IsDir e then (m1, PreviewEmptyCmd currentGen)
               else (m1, PreviewFileCmd (Path e) currentGen))"

definition enterDirectory :: "Model \<Rightarrow> Model \<times> Cmd" where
  "enterDirectory m =
     (case currentEntry m of
        None \<Rightarrow> (m, NoCmd)
      | Some e \<Rightarrow>
          if \<not> IsDir e then (m\<lparr>statusMsg := ''Cannot open file: '' @ Name e\<rparr>, NoCmd)
          else (m\<lparr>currentPath := Path e, previousDir := [], cursor := 0, offset := 0\<rparr>,
                LoadDirectoryCmd))"

definition goBack :: "Libs \<Rightarrow> Model \<Rightarrow> Model \<times> Cmd" where
  "goBack libs m =
     (if currentPath m = ''/'' then (m, NoCmd)
      else (m\<lparr>previousDir := filepath_Base (currentPath m),
               currentPath := filepath_Dir libs (currentPath m),
               cursor := 0, offset := 0\<rparr>,
            LoadDirectoryCmd))"

definition startInput :: "Model \<Rightarrow> InputType \<Rightarrow> string \<Rightarrow> Model" where
  "startInput m it prompt =
     m\<lparr>mode := (if it = InputCommand then ModeCommand else ModeInput),
       inputType := it,
       textInput := (textInput m)\<lparr>Placeholder := prompt, Value := [], Focused := True\<rparr>,
       errorMsg := [], statusMsg := []\<rparr>"

definition cancelInput :: "Model \<Rightarrow> Model" where
  "cancelInput m =
     m\<lparr>mode := ModeNormal, textInput := (textInput m)\<lparr>Focused := False, Value := []\<rparr>\<rparr>"

definition deleteEntry :: "Model \<Rightarrow> Cmd" where
  "deleteEntry m = (case currentEntry m of None \<Rightarrow> NoCmd | Some e \<Rightarrow> DeleteEntryCmd e)"

definition renameEntry :: "Model \<Rightarrow> string \<Rightarrow> Cmd" where
  "renameEntry m newName =
     (case currentEntry m of None \<Rightarrow> NoCmd | Some e \<Rightarrow> RenameEntryCmd e newName)"

definition submitInput :: "Model \<Rightarrow> Model \<times> Cmd" where
  "submitInput m =
     (let v = strings_TrimSpace (Value (textInput m)) in
      if inputType m = InputCommand then
        (let m1 = m\<lparr>textInput := (textInput m)\<lparr>Value := []\<rparr>\<rparr>
         in if v = [] then (m1, NoCmd) else (m1, ExecuteCmd v))
      else
        (let m1 = cancelInput m in
         if v = [] then (m1, NoCmd)
         else
           (case inputType m1 of
              InputNewFile \<Rightarrow> (m1, CreateFileCmd v)
            | InputNewDir \<Rightarrow> (m1, CreateDirectoryCmd v)
            | InputRename \<Rightarrow> (m1, renameEntry m1 v)
            | InputDelete \<Rightarrow>
                if strings_ToLower v = ''y'' \<or> strings_ToLower v = ''yes''
                then (m1, deleteEntry m1) else (m1, NoCmd)
            | InputCommand \<Rightarrow> (m1, NoCmd))))"

definition submitTerminalCommand :: "Model \<Rightarrow> Model \<times> Cmd" where
  "submitTerminalCommand m =
     (let cmdLine = strings_TrimSpace (Value (textInput m));
          m1 = m\<lparr>textInput := (textInput m)\<lparr>Value := []\<rparr>\<rparr>
      in if cmdLine = [] then (m1, NoCmd)
         else
           (let entry = \<lparr>Number = commandCounter m1, TermPath = currentPath m1,
                         Command = cmdLine, Output = [], Error = []\<rparr>
            in (m1\<lparr>terminalHistory := terminalHistory m1 @ [entry],
                   commandCounter := commandCounter m1 + 1\<rparr>,
                TerminalCmd (length (terminalHistory m1)) cmdLine)))"

subsection \<open>Key and mouse handlers\<close>

definition handleNormalMode :: "Libs \<Rightarrow> Model \<Rightarrow> KeyMsg \<Rightarrow> Model \<times> Cmd" where
  "handleNormalMode libs m msg =
     (if key_Matches msg keys_Quit then (m, QuitCmd)
      else if keyType msg = KeyEscape then
        (if commandOut m \<noteq> [] \<and> mode m \<noteq> ModeTerminal
         then (m\<lparr>commandOut := [], errorMsg := [], statusMsg := []\<rparr>, NoCmd)
         else (m, NoCmd))
      else if key_Matches msg keys_Help then
        (m\<lparr>mode := ModeHelp, showFullHelp := \<not> showFullHelp m\<rparr>, NoCmd)
      else if key_Matches msg keys_Up then updatePreview (moveCursor m (- 1))
      else if key_Matches msg keys_Down then updatePreview (moveCursor m 1)
      else if key_Matches msg keys_PageUp then updatePreview (moveCursor m (- 10))
      else if key_Matches msg keys_PageDown then updatePreview (moveCursor m 10)
      else if key_Matches msg keys_Top then updatePreview (m\<lparr>cursor := 0, offset := 0\<rparr>)
      else if key_Matches msg keys_Bottom then
        updatePreview
          (if 0 < length (entries m) then m\<lparr>cursor := int (length (entries m)) - 1\<rparr> else m)
      else if key_Matches msg keys_Enter then enterDirectory m
      else if key_Matches msg keys_Back then goBack libs m
      else if key_Matches msg keys_TogglePreview then
        (m\<lparr>showPreview := \<not> showPreview m\<rparr>, NoCmd)
      else if key_Matches msg keys_Refresh then (m, LoadDirectoryCmd)
      else if key_Matches msg keys_NewFile then
        (startInput m InputNewFile ''New file name:'', NoCmd)
      else if key_Matches msg keys_NewDir then
        (startInput m InputNewDir ''New directory name:'', NoCmd)
      else if key_Matches msg keys_Delete then
        (case currentEntry m of
           None \<Rightarrow> (m, NoCmd)
         | Some e \<Rightarrow> (startInput m InputDelete (''Delete '' @ Name e @ ''? (y/n):''), NoCmd))
      else if key_Matches msg keys_Rename then
        (case currentEntry m of
           None \<Rightarrow> (m, NoCmd)
         | Some e \<Rightarrow>
             (let m1 = startInput m InputRename ''New name:''
              in (m1\<lparr>textInput := (textInput m1)\<lparr>Value := Name e\<rparr>\<rparr>, NoCmd)))
      else if key_Matches msg keys_Copy then
        (case currentEntry m of
           None \<Rightarrow> (m, NoCmd)
         | Some e \<Rightarrow> (m\<lparr>clipboard := Path e, statusMsg := ''Copied: '' @ Name e\<rparr>, NoCmd))
      else if key_Matches msg keys_Command then
        (if mode m = ModeTerminal
         then (m\<lparr>mode := ModeNormal, textInput := (textInput m)\<lparr>Focused := False\<rparr>\<rparr>, NoCmd)
         else (m\<lparr>mode := ModeTerminal,
                 textInput := (textInput m)\<lparr>Placeholder := [], Value := [], Focused := True\<rparr>,
                 terminalOffset := 0\<rparr>, NoCmd))
      else (m, NoCmd))"

definition handleInputMode :: "Libs \<Rightarrow> Model \<Rightarrow> KeyMsg \<Rightarrow> Model \<times> Cmd" where
  "handleInputMode libs m msg =
     (case keyType msg of
        KeyEscape \<Rightarrow>
          if mode m = ModeCommand
          then (m\<lparr>textInput := (textInput m)\<lparr>Focused := False\<rparr>, mode := ModeNormal\<rparr>, NoCmd)
          else (cancelInput m, NoCmd)
      | KeyEnter \<Rightarrow> submitInput m
      | KeyOtherType \<Rightarrow>
          (m\<lparr>textInput := TextInputUpdate libs (textInput m) (KeyPress msg)\<rparr>, TextInputCmd))"

definition handleHelpMode :: "Model \<Rightarrow> KeyMsg \<Rightarrow> Model \<times> Cmd" where
  "handleHelpMode m msg =
     (if key_Matches msg keys_Help \<or> key_Matches msg keys_Quit
      then (m\<lparr>mode := ModeNormal\<rparr>, NoCmd)
      else (m, NoCmd))"

definition handleTerminalMode :: "Libs \<Rightarrow> Model \<Rightarrow> KeyMsg \<Rightarrow> Model \<times> Cmd" where
  "handleTerminalMode libs m msg =
     (if key_Matches msg keys_Command then
        (m\<lparr>mode := ModeNormal, textInput := (textInput m)\<lparr>Focused := False\<rparr>\<rparr>, NoCmd)
      else if key_Matches msg keys_Up then
        (if terminalOffset m < int (length (terminalHistory m)) * 3
         then (m\<lparr>terminalOffset := terminalOffset m + 1\<rparr>, NoCmd) else (m, NoCmd))
      else if key_Matches msg keys_Down then
        (if 0 < terminalOffset m
         then (m\<lparr>terminalOffset := terminalOffset m - 1\<rparr>, NoCmd) else (m, NoCmd))
      else if key_Matches msg keys_PageUp then
        (m\<lparr>terminalOffset := terminalOffset m + 10\<rparr>, NoCmd)
      else if key_Matches msg keys_PageDown then
        (m\<lparr>terminalOffset :=
             (if terminalOffset m - 10 < 0 then 0 else terminalOffset m - 10)\<rparr>, NoCmd)
      else if keyType msg = KeyEnter then submitTerminalCommand m
      else if keyType msg = KeyEscape then
        (m\<lparr>mode := ModeNormal, textInput := (textInput m)\<lparr>Focused := False\<rparr>\<rparr>, NoCmd)
      else (m\<lparr>textInput := TextInputUpdate libs (textInput m) (KeyPress msg)\<rparr>, TextInputCmd))"

definition handleKeyPress :: "Libs \<Rightarrow> Model \<Rightarrow> KeyMsg \<Rightarrow> Model \<times> Cmd" where
  "handleKeyPress libs m msg =
     (case mode m of
        ModeCommand \<Rightarrow> handleInputMode libs m msg
      | ModeInput \<Rightarrow> handleInputMode libs m msg
      | ModeHelp \<Rightarrow> handleHelpMode m msg
      | ModeTerminal \<Rightarrow> handleTerminalMode libs m msg
      | ModeNormal \<Rightarrow> handleNormalMode libs m msg)"

text \<open>
  The mouse handler reads the clock (\<open>time.Now().UnixNano()\<close>); the reading is the
  argument \<open>now\<close>.
\<close>

definition doubleClickThreshold :: int where
  "doubleClickThreshold = 500 * 1000000"

definition handleMouseEvent :: "Libs \<Rightarrow> int \<Rightarrow> Model \<Rightarrow> MouseMsg \<Rightarrow> Model \<times> Cmd" where
  "handleMouseEvent libs now m msg =
     (if mode m \<noteq> ModeNormal then (m, NoCmd)
      else if mouseAction msg = MouseActionPress then
        (case mouseButton msg of
           MouseButtonWheelUp \<Rightarrow> updatePreview (moveCursor m (- 1))
         | MouseButtonWheelDown \<Rightarrow> updatePreview (moveCursor m 1)
         | MouseButtonLeft \<Rightarrow>
             (let m1 = m\<lparr>fileListTop := 2\<rparr> in
              if mouseY msg < fileListTop m1 then (m1, NoCmd)
              else
                (let clickedLine = mouseY msg - fileListTop m1;
                     clickedIndex = offset m1 + clickedLine
                 in if 0 \<le> clickedIndex \<and> clickedIndex < int (length (entries m1)) then
                      (let isDoubleClick =
                             (now - lastClickTime m1 < doubleClickThreshold
                              \<and> mouseY msg = lastClickY m1 \<and> clickedIndex = cursor m1);
                           m2 = m1\<lparr>lastClickTime := now, lastClickY := mouseY msg\<rparr>
                       in if isDoubleClick then enterDirectory (m2\<lparr>cursor := clickedIndex\<rparr>)
                          else updatePreview (m2\<lparr>cursor := clickedIndex\<rparr>))
                    else (m1, NoCmd)))
         | MouseButtonRight \<Rightarrow> goBack libs m
         | _ \<Rightarrow> (m, NoCmd))
      else (m, NoCmd))"

subsection \<open>Update\<close>

text \<open>
  The loop of the \<open>directoryLoadedMsg\<close> case: the index of the first entry with the
  remembered name.
\<close>

fun indexOfName :: "string \<Rightarrow> Entry list \<Rightarrow> nat \<Rightarrow> nat option" where
  "indexOfName n [] i = None"
| "indexOfName n (e # es) i = (if Name e = n then Some i else indexOfName n es (Suc i))"

definition positionOnPrevious :: "Model \<Rightarrow> Model" where
  "positionOnPrevious m =
     (case indexOfName (previousDir m) (entries m) 0 of
        None \<Rightarrow> m
      | Some i \<Rightarrow>
          (let m1 = m\<lparr>cursor := int i\<rparr>;
               visibleLines = getVisibleLines m1
           in if offset m1 + visibleLines \<le> cursor m1
              then m1\<lparr>offset := cursor m1 - visibleLines + 1\<rparr>
              else if cursor m1 < offset m1 then m1\<lparr>offset := cursor m1\<rparr>
              else m1))"

definition clampCursor :: "Model \<Rightarrow> Model" where
  "clampCursor m =
     (let m1 = (if 0 < length (entries m) \<and> int (length (entries m)) \<le> cursor m
                then m\<lparr>cursor := int (length (entries m)) - 1\<rparr> else m)
      in if cursor m1 < 0 then m1\<lparr>cursor := 0\<rparr> else m1)"

definition directoryLoaded :: "Model \<Rightarrow> Entry list \<Rightarrow> Model \<times> Cmd" where
  "directoryLoaded m es =
     (let m1 = m\<lparr>entries := es, errorMsg := []\<rparr>;
          m2 = (if previousDir m1 \<noteq> [] then (positionOnPrevious m1)\<lparr>previousDir := []\<rparr>
                else clampCursor m1)
      in updatePreview m2)"

definition previewLoaded :: "Model \<Rightarrow> string \<Rightarrow> string option \<Rightarrow> int \<Rightarrow> Model \<times> Cmd" where
  "previewLoaded m c e generation =
     (if generation = previewGen m then (m\<lparr>previewContent := c, previewError := e\<rparr>, NoCmd)
      else (m, NoCmd))"

definition Update :: "Libs \<Rightarrow> int \<Rightarrow> Model \<Rightarrow> Msg \<Rightarrow> Model \<times> Cmd" where
  "Update libs now m msg =
     (case msg of
        WindowSizeMsg w h \<Rightarrow> (m\<lparr>width := w, height := h, helpWidth := w\<rparr>, NoCmd)
      | DirectoryLoadedMsg es \<Rightarrow> directoryLoaded m es
      | PreviewLoadedMsg c e generation \<Rightarrow> previewLoaded m c e generation
      | CommandExecutedMsg out er \<Rightarrow>
          (m\<lparr>commandOut := out, errorMsg := er, statusMsg := ''Command executed''\<rparr>,
           LoadDirectoryCmd)
      | ErrorMsg e \<Rightarrow> (m\<lparr>errorMsg := e\<rparr>, NoCmd)
      | KeyPress k \<Rightarrow> handleKeyPress libs m k
      | MousePress mm \<Rightarrow> handleMouseEvent libs now m mm
      | OtherMsg x \<Rightarrow>
          if mode m = ModeCommand \<or> mode m = ModeInput
          then (m\<lparr>textInput := TextInputUpdate libs (textInput m) msg\<rparr>, TextInputCmd)
          else (m, NoCmd))"

subsection \<open>The detached tasks\<close>

text \<open>
  \<open>ListDirectory\<close> of the adapter and the closure of \<open>loadDirectory\<close>, which reads the
  current path when it runs.
\<close>

definition entryOfMeta :: "Libs \<Rightarrow> string \<Rightarrow> Metadata \<Rightarrow> Entry" where
  "entryOfMeta libs path meta =
     \<lparr>Name = Key meta, Path = filepath_Join libs path (Key meta), Size = MetaSize meta,
      Mode = MetaMode meta, ModTime = ModifyTime meta, IsDir = ModeIsDir (MetaMode meta),
      MimeType = ContentType meta\<rparr>"

definition ListDirectory :: "Libs \<Rightarrow> VFS \<Rightarrow> string \<Rightarrow> string + Entry list" where
  "ListDirectory libs vfs path =
     (case ReadDirectory vfs path of
        Inl e \<Rightarrow> Inl e
      | Inr metas \<Rightarrow> Inr (map (entryOfMeta libs path) metas))"

definition runLoadDirectory :: "Libs \<Rightarrow> VFS \<Rightarrow> Model \<Rightarrow> Msg" where
  "runLoadDirectory libs vfs m =
     (case ListDirectory libs vfs (currentPath m) of
        Inl e \<Rightarrow> ErrorMsg (''Failed to load directory: '' @ e)
      | Inr es \<Rightarrow> DirectoryLoadedMsg es)"

text \<open>
  The two closures of \<open>updatePreview\<close>. The second reads the width and the height of the
  model when it runs; both are non-negative, and the quotient is Go's.
\<close>

definition runPreviewEmpty :: "int \<Rightarrow> Msg" where
  "runPreviewEmpty currentGen = PreviewLoadedMsg [] None currentGen"

definition runPreviewFile :: "VFS \<Rightarrow> ImageLib \<Rightarrow> Model \<Rightarrow> string \<Rightarrow> int \<Rightarrow> Msg" where
  "runPreviewFile vfs lib m entryPath currentGen =
     (let previewWidth = width m div 2;
          previewHeight = height m - 10;
          out = GeneratePreview vfs lib entryPath previewWidth previewHeight
      in PreviewLoadedMsg (content out) (err out) currentGen)"

text \<open>
  The closure of \<open>submitTerminalCommand\<close>. It writes the output and the error into the
  history entry it points to, directly, and then returns its message.
\<close>

definition runTerminalCommand :: "VFS \<Rightarrow> Model \<Rightarrow> nat \<Rightarrow> string \<Rightarrow> Model \<times> Msg" where
  "runTerminalCommand vfs m i cmdLine =
     (let as = parseCommandLine cmdLine in
      if length as = 0 then (m, CommandExecutedMsg [] [])
      else
        (case Execute vfs as of
           (output, exitCode, er) \<Rightarrow>
             (let errStr0 = (case er of None \<Rightarrow> [] | Some e \<Rightarrow> e);
                  errStr = (if exitCode \<noteq> 0 \<and> errStr0 = []
                            then ''Command exited with code '' @ fmtD exitCode else errStr0)
              in (if i < length (terminalHistory m)
                  then m\<lparr>terminalHistory :=
                           (terminalHistory m)
                             [i := (terminalHistory m ! i)\<lparr>Output := output, Error := errStr\<rparr>]\<rparr>
                  else m,
                  CommandExecutedMsg output errStr))))"

subsection \<open>Runs of the program\<close>

text \<open>
  An event is a message taken from the queue and processed by \<open>Update\<close> (with the clock
  reading of that moment), or the run of a terminal closure, which writes to the history.
  Every message is allowed at every moment: what a detached task reports depends on the
  storage collaborator.
\<close>

datatype Event = Deliver int Msg | RunTerminal nat string

definition step :: "Libs \<Rightarrow> VFS \<Rightarrow> Model \<Rightarrow> Event \<Rightarrow> Model" where
  "step libs vfs m ev =
     (case ev of
        Deliver now msg \<Rightarrow> fst (Update libs now m msg)
      | RunTerminal i cmdLine \<Rightarrow> fst (runTerminalCommand vfs m i cmdLine))"

definition run :: "Libs \<Rightarrow> VFS \<Rightarrow> Event list \<Rightarrow> Model" where
  "run libs vfs evs = foldl (step libs vfs) NewModel evs"

section \<open>Notions used in the statements\<close>

text \<open>
  The generation a command carries, if it is a preview task; whether a message is a
  preview completion; two models agreeing on the preview fields; and the frame of one
  processing step: the preview content and error are kept, and the generation counter is
  either kept, with no preview task dispatched, or incremented by one while the preview
  pane is shown, with a preview task of the new generation dispatched.
\<close>

definition taskGeneration :: "Cmd \<Rightarrow> int option" where
  "taskGeneration cmd =
     (case cmd of PreviewEmptyCmd g \<Rightarrow> Some g | PreviewFileCmd p g \<Rightarrow> Some g | _ \<Rightarrow> None)"

definition isPreviewLoaded :: "Msg \<Rightarrow> bool" where
  "isPreviewLoaded msg = (case msg of PreviewLoadedMsg c e g \<Rightarrow> True | _ \<Rightarrow> False)"

definition samePreview :: "Model \<Rightarrow> Model \<Rightarrow> bool" where
  "samePreview m m' =
     (previewGen m' = previewGen m \<and> previewContent m' = previewContent m
      \<and> previewError m' = previewError m)"

definition previewFrame :: "Model \<Rightarrow> Model \<times> Cmd \<Rightarrow> bool" where
  "previewFrame m r =
     (previewContent (fst r) = previewContent m \<and> previewError (fst r) = previewError m
      \<and> (if previewGen (fst r) = previewGen m then taskGeneration (snd r) = None
          else showPreview m \<and> previewGen (fst r) = previewGen m + 1
               \<and> taskGeneration (snd r) = Some (previewGen m + 1)))"

text \<open>
  For the terminal history: what identifies an entry (its number, path and command), the
  entry a submitted line creates, the invariant of the history, the events that submit a
  line to the terminal (the Enter key in terminal mode, on a line that is not blank), and
  a processing step that keeps the history and the counter.
\<close>

definition entryIdent :: "TerminalEntry \<Rightarrow> int \<times> string \<times> string" where
  "entryIdent e = (Number e, TermPath e, Command e)"

definition newTerminalEntry :: "Model \<Rightarrow> TerminalEntry" where
  "newTerminalEntry m =
     \<lparr>Number = commandCounter m, TermPath = currentPath m,
      Command = strings_TrimSpace (Value (textInput m)), Output = [], Error = []\<rparr>"

definition histInv :: "Model \<Rightarrow> bool" where
  "histInv m =
     (commandCounter m = int (length (terminalHistory m))
      \<and> map Number (terminalHistory m) = map int [0..<length (terminalHistory m)])"

definition submitsTerminalLine :: "Model \<Rightarrow> Event \<Rightarrow> bool" where
  "submitsTerminalLine m ev =
     (case ev of
        Deliver now (KeyPress k) \<Rightarrow>
          mode m = ModeTerminal \<and> keyType k = KeyEnter
          \<and> keyString k \<notin> set (keys_Command @ keys_Up @ keys_Down @ keys_PageUp @ keys_PageDown)
          \<and> strings_TrimSpace (Value (textInput m)) \<noteq> []
      | _ \<Rightarrow> False)"

definition histKeep :: "Model \<Rightarrow> Model \<times> Cmd \<Rightarrow> bool" where
  "histKeep m r =
     (terminalHistory (fst r) = terminalHistory m \<and> commandCounter (fst r) = commandCounter m)"

section \<open>Sample collaborators and inputs\<close>

text \<open>
  Concrete collaborators for evaluating the model: a text input that appends the typed
  character, parent and join of clean absolute paths, a store with one empty file, a store
  with one image file of 6 MiB, and an image library whose decoder fails.
\<close>

definition typeKey :: "TextInput \<Rightarrow> Msg \<Rightarrow> TextInput" where
  "typeKey ti msg =
     (case msg of
        KeyPress k \<Rightarrow> if length (keyString k) = 1 then ti\<lparr>Value := Value ti @ keyString k\<rparr> else ti
      | _ \<Rightarrow> ti)"

definition parentDir :: "string \<Rightarrow> string" where
  "parentDir p =
     (let d = rev (drop 1 (dropWhile (\<lambda>c. c \<noteq> CHR ''/'') (rev p)))
      in if d = [] then ''/'' else d)"

definition joinPath :: "string \<Rightarrow> string \<Rightarrow> string" where
  "joinPath a b = (if a = ''/'' then a @ b else a @ ''/'' @ b)"

definition sampleLibs :: Libs where
  "sampleLibs =
     \<lparr>TextInputUpdate = typeKey, filepath_Dir = parentDir, filepath_Join = joinPath\<rparr>"

definition fileMeta :: "string \<Rightarrow> 64 word \<Rightarrow> Metadata" where
  "fileMeta k n =
     \<lparr>Key = k, MetaSize = n, MetaMode = \<lparr>IsMount = False, ModeIsDir = False\<rparr>,
      ModifyTime = 0, ContentType = []\<rparr>"

definition emptyFileFS :: VFS where
  "emptyFileFS =
     \<lparr>StatMetadata = (\<lambda>p. Inr (fileMeta ''empty.txt'' 0)),
      OpenFile = (\<lambda>p. Inr ([], AtEOF)),
      ReadDirectory = (\<lambda>p. Inr [fileMeta ''empty.txt'' 0]),
      Execute = (\<lambda>as. ([], 0, None))\<rparr>"

definition bigImageFS :: VFS where
  "bigImageFS =
     \<lparr>StatMetadata = (\<lambda>p. Inr (fileMeta ''big.png'' 6291456)),
      OpenFile = (\<lambda>p. Inr (replicate 6291456 (CHR 0x00), AtEOF)),
      ReadDirectory = (\<lambda>p. Inr [fileMeta ''big.png'' 6291456]),
      Execute = (\<lambda>as. ([], 0, None))\<rparr>"

definition failingFS :: VFS where
  "failingFS =
     \<lparr>StatMetadata = (\<lambda>p. Inl ''not found''),
      OpenFile = (\<lambda>p. Inl ''not found''),
      ReadDirectory = (\<lambda>p. Inl ''permission denied''),
      Execute = (\<lambda>as. ([], 1, None))\<rparr>"

definition failingImageLib :: ImageLib where
  "failingImageLib =
     \<lparr>ImageDecode = (\<lambda>f. Inl ''image: unknown format''),
      AnsiRender = (\<lambda>f img. Inl ''no image'')\<rparr>"

definition fileEntry :: "string \<Rightarrow> Entry" where
  "fileEntry n =
     \<lparr>Name = n, Path = ''/'' @ n, Size = 12, Mode = \<lparr>IsMount = False, ModeIsDir = False\<rparr>,
      ModTime = 0, IsDir = False, MimeType = []\<rparr>"

definition dirEntry :: "string \<Rightarrow> Entry" where
  "dirEntry n =
     \<lparr>Name = n, Path = ''/'' @ n, Size = 0, Mode = \<lparr>IsMount = False, ModeIsDir = True\<rparr>,
      ModTime = 0, IsDir = True, MimeType = []\<rparr>"

definition pressKey :: "string \<Rightarrow> Event" where
  "pressKey s = Deliver 0 (KeyPress (KeyMsg KeyOtherType s))"

definition pressEnter :: Event where
  "pressEnter = Deliver 0 (KeyPress (KeyMsg KeyEnter ''enter''))"

text \<open>The image extensions that \<open>DetectFileType\<close> lists, among the binary ones.\<close>

definition imagePreviewExts :: "string list" where
  "imagePreviewExts = [''.png'', ''.jpg'', ''.jpeg'', ''.gif'', ''.bmp'', ''.webp'']"

text \<open>The bounds of the cursor and the scroll window, as the specification states them.\<close>

definition cursorInv :: "Model \<Rightarrow> bool" where
  "cursorInv m =
     (if entries m = [] then cursor m = 0
      else 0 \<le> cursor m \<and> cursor m < int (length (entries m)))"

definition windowInv :: "Model \<Rightarrow> bool" where
  "windowInv m = (offset m \<le> cursor m \<and> cursor m < offset m + getVisibleLines m)"

text \<open>
  Two reachable models: after a directory of two files has been loaded and the cursor has
  moved down once (two preview tasks dispatched), and the same with the preview pane then
  switched off.
\<close>

definition twoDispatches :: Model where
  "twoDispatches =
     run sampleLibs emptyFileFS
       [Deliver 0 (DirectoryLoadedMsg [fileEntry ''a.txt'', fileEntry ''b.txt'']),
        pressKey ''down'']"

definition previewOff :: Model where
  "previewOff = step sampleLibs emptyFileFS twoDispatches (pressKey ''p'')"

text \<open>
  Two more reachable models, both in terminal mode: with \<open>ls\<close> typed on the input line,
  and with three spaces typed.
\<close>

definition typedLs :: Model where
  "typedLs = run sampleLibs emptyFileFS [pressKey ''#'', pressKey ''l'', pressKey ''s'']"

definition typedBlank :: Model where
  "typedBlank = run sampleLibs emptyFileFS [pressKey ''#'', pressKey '' '', pressKey '' '', pressKey '' '']"

text \<open>
  Runs that end outside the bounds: a reload that finds the directory emptied while the
  cursor is on the second entry; a return to the parent directory that no longer lists
  the directory left, after the cursor has moved on the old list; and the key for the end
  of the list on a directory of seventeen files in a terminal of 24 rows. The last run is
  the same as the third, with page-down pressed twice in place of the end key.
\<close>

definition emptiedReload :: "Event list" where
  "emptiedReload =
     [Deliver 0 (WindowSizeMsg 80 24),
      Deliver 0 (DirectoryLoadedMsg [fileEntry ''a.txt'', fileEntry ''b.txt'']),
      pressKey ''down'',
      pressKey ''ctrl+r'',
      Deliver 0 (DirectoryLoadedMsg [])]"

definition backToChangedParent :: "Event list" where
  "backToChangedParent =
     [Deliver 0 (WindowSizeMsg 80 24),
      Deliver 0 (DirectoryLoadedMsg [dirEntry ''sub'', fileEntry ''a.txt'']),
      pressEnter,
      Deliver 0 (DirectoryLoadedMsg [fileEntry ''x'', fileEntry ''y'', fileEntry ''z'']),
      pressKey ''backspace'',
      pressKey ''down'',
      pressKey ''down'',
      Deliver 0 (DirectoryLoadedMsg [fileEntry ''a.txt''])]"

definition seventeenFiles :: "Entry list" where
  "seventeenFiles =
     map fileEntry
       [''f01'', ''f02'', ''f03'', ''f04'', ''f05'', ''f06'', ''f07'', ''f08'', ''f09'',
        ''f10'', ''f11'', ''f12'', ''f13'', ''f14'', ''f15'', ''f16'', ''f17'']"

definition endKeyRun :: "Event list" where
  "endKeyRun =
     [Deliver 0 (WindowSizeMsg 80 24),
      Deliver 0 (DirectoryLoadedMsg seventeenFiles),
      pressKey ''end'']"

definition pageDownRun :: "Event list" where
  "pageDownRun =
     [Deliver 0 (WindowSizeMsg 80 24),
      Deliver 0 (DirectoryLoadedMsg seventeenFiles),
      pressKey ''pgdown'',
      pressKey ''pgdown'']"

section \<open>The tokenizer\<close>

lemma splitAtSpaces_ne: "splitAtSpaces cs \<noteq> []"
  by (induction cs) auto

lemma run_plain:
  "\<not> inQuote st \<Longrightarrow> quoteFree cs \<Longrightarrow>
   foldl tokStep st cs =
     st\<lparr>args := args st @ nonEmpty (butlast (glue (current st) (splitAtSpaces cs))),
        current := last (glue (current st) (splitAtSpaces cs))\<rparr>"
proof (induction cs arbitrary: st)
  case Nil
  then show ?case by (simp add: glue_def nonEmpty_def)
next
  case (Cons c cs)
  have qf: "quoteFree cs" and c: "c \<noteq> CHR 0x22" "c \<noteq> CHR 0x27"
    using Cons.prems(2) by (auto simp: quoteFree_def)
  have nq: "\<not> inQuote (tokStep st c)"
    using Cons.prems(1) c by (simp add: tokStep_def)
  note IH = Cons.IH [OF nq qf]
  show ?case
  proof (cases "c = CHR 0x20")
    case True
    then show ?thesis
      using IH Cons.prems(1) splitAtSpaces_ne [of cs]
      by (cases "splitAtSpaces cs") (auto simp: tokStep_def glue_def nonEmpty_def)
  next
    case False
    then show ?thesis
      using IH Cons.prems(1) c splitAtSpaces_ne [of cs]
      by (cases "splitAtSpaces cs") (auto simp: tokStep_def glue_def nonEmpty_def)
  qed
qed

lemma run_quoted:
  "inQuote st \<Longrightarrow> quoteChar st = q \<Longrightarrow> q \<notin> set body \<Longrightarrow>
   foldl tokStep st body = st\<lparr>current := current st @ body\<rparr>"
  by (induction body arbitrary: st) (auto simp: tokStep_def)

lemma glue_nil: "glue [] (splitAtSpaces cs) = splitAtSpaces cs"
  using splitAtSpaces_ne [of cs] by (simp add: glue_def)

lemma nonEmpty_butlast_last:
  "ws \<noteq> [] \<Longrightarrow> nonEmpty (butlast ws) @ (if last ws \<noteq> [] then [last ws] else []) = nonEmpty ws"
proof -
  assume "ws \<noteq> []"
  then have "ws = butlast ws @ [last ws]" by simp
  then have "nonEmpty ws = nonEmpty (butlast ws @ [last ws])" by simp
  then show ?thesis by (simp add: nonEmpty_def)
qed

lemma parse_plain:
  assumes "quoteFree line"
  shows "parseCommandLine line = nonEmpty (splitAtSpaces line)"
proof -
  have "\<not> inQuote tokInit" by (simp add: tokInit_def)
  from run_plain [OF this assms]
  have "parseCommandLine line =
          nonEmpty (butlast (splitAtSpaces line))
            @ (if last (splitAtSpaces line) \<noteq> [] then [last (splitAtSpaces line)] else [])"
    by (simp add: parseCommandLine_def tokFinish_def tokInit_def glue_nil)
  then show ?thesis
    using nonEmpty_butlast_last [OF splitAtSpaces_ne [of line]] by simp
qed

lemma parse_open_quote:
  assumes pre: "quoteFree pre" and q: "isQuote q"
  shows "foldl tokStep tokInit (pre @ [q]) =
           \<lparr>args = nonEmpty (butlast (splitAtSpaces pre)), current = last (splitAtSpaces pre),
            inQuote = True, quoteChar = q\<rparr>"
proof -
  have "\<not> inQuote tokInit" by (simp add: tokInit_def)
  from run_plain [OF this pre] show ?thesis
    using q by (simp add: tokInit_def glue_nil tokStep_def isQuote_def)
qed

lemma parse_unterminated:
  assumes pre: "quoteFree pre" and q: "isQuote q" and rest: "q \<notin> set rest"
  shows "parseCommandLine (pre @ [q] @ rest) =
           nonEmpty (butlast (splitAtSpaces pre) @ [last (splitAtSpaces pre) @ rest])"
proof -
  define s1 where "s1 = foldl tokStep tokInit (pre @ [q])"
  have st: "s1 = \<lparr>args = nonEmpty (butlast (splitAtSpaces pre)),
                   current = last (splitAtSpaces pre), inQuote = True, quoteChar = q\<rparr>"
    unfolding s1_def by (rule parse_open_quote [OF pre q])
  have "foldl tokStep tokInit (pre @ [q] @ rest) = foldl tokStep s1 rest"
    unfolding s1_def by simp
  also have "\<dots> = s1\<lparr>current := current s1 @ rest\<rparr>"
    by (rule run_quoted [of _ q]) (simp_all add: st rest)
  finally show ?thesis
    by (simp add: parseCommandLine_def tokFinish_def st nonEmpty_def)
qed

lemma parse_quoted:
  assumes pre: "quoteFree pre" and post: "quoteFree post" and q: "isQuote q"
    and body: "q \<notin> set body"
  shows "parseCommandLine (pre @ [q] @ body @ [q] @ post) =
           nonEmpty (butlast (splitAtSpaces pre)
             @ [last (splitAtSpaces pre) @ body @ hd (splitAtSpaces post)]
             @ tl (splitAtSpaces post))"
proof -
  define s1 where "s1 = foldl tokStep tokInit (pre @ [q])"
  define A where "A = nonEmpty (butlast (splitAtSpaces pre))"
  define c where "c = last (splitAtSpaces pre) @ body"
  define s2 where "s2 = \<lparr>args = A, current = c, inQuote = False, quoteChar = CHR 0x00\<rparr>"
  define G where "G = glue c (splitAtSpaces post)"
  have st: "s1 = \<lparr>args = A, current = last (splitAtSpaces pre),
                   inQuote = True, quoteChar = q\<rparr>"
    unfolding s1_def A_def by (rule parse_open_quote [OF pre q])
  have "foldl tokStep s1 body = s1\<lparr>current := current s1 @ body\<rparr>"
    by (rule run_quoted [of _ q]) (simp_all add: st body)
  then have "tokStep (foldl tokStep s1 body) q = s2"
    using q by (simp add: st tokStep_def isQuote_def s2_def c_def)
  then have st2: "foldl tokStep tokInit (pre @ [q] @ body @ [q] @ post) = foldl tokStep s2 post"
    unfolding s1_def by simp
  have "\<not> inQuote s2" by (simp add: s2_def)
  from run_plain [OF this post]
  have st3: "foldl tokStep s2 post = s2\<lparr>args := A @ nonEmpty (butlast G), current := last G\<rparr>"
    by (simp add: s2_def G_def)
  have "parseCommandLine (pre @ [q] @ body @ [q] @ post) = tokFinish (foldl tokStep s2 post)"
    unfolding parseCommandLine_def st2 ..
  also have "\<dots> = A @ (nonEmpty (butlast G) @ (if last G \<noteq> [] then [last G] else []))"
    unfolding st3 by (simp add: tokFinish_def s2_def)
  also have "\<dots> = A @ nonEmpty G"
    using nonEmpty_butlast_last [of G] by (simp add: G_def glue_def)
  finally show ?thesis
    by (simp add: nonEmpty_def glue_def G_def A_def c_def)
qed

lemma splitMarked_ne: "splitMarked xs \<noteq> []"
  by (induction xs) auto

lemma glue_split:
  "nonEmpty (glue cur ([] # ws)) = (if cur = [] then [] else [cur]) @ nonEmpty ws"
  by (simp add: glue_def nonEmpty_def)

lemma glue_cons:
  "ws \<noteq> [] \<Longrightarrow> glue cur ((c # hd ws) # tl ws) = glue (cur @ [c]) ws"
  by (simp add: glue_def)

lemma glue_nil_any: "ws \<noteq> [] \<Longrightarrow> glue [] ws = ws"
  by (simp add: glue_def)

lemma run_marked:
  "(inQuote st \<longrightarrow> isQuote (quoteChar st)) \<Longrightarrow>
   tokFinish (foldl tokStep st cs) =
     args st @ nonEmpty (glue (current st) (splitMarked (mark (openQuote st) cs)))"
proof (induction cs arbitrary: st)
  case Nil
  then show ?case by (simp add: tokFinish_def glue_def nonEmpty_def)
next
  case (Cons c cs)
  define st' where "st' = tokStep st c"
  define R where "R = args st' @ nonEmpty (glue (current st') (splitMarked (mark (openQuote st') cs)))"
  have inv': "inQuote st' \<longrightarrow> isQuote (quoteChar st')"
    using Cons.prems by (auto simp: st'_def tokStep_def isQuote_def)
  have step: "tokFinish (foldl tokStep st (c # cs)) = R"
    using Cons.IH [OF inv'] by (simp add: st'_def R_def)
  have ne: "splitMarked (mark q cs) \<noteq> []" for q
    by (rule splitMarked_ne)
  have "R = args st @ nonEmpty (glue (current st) (splitMarked (mark (openQuote st) (c # cs))))"
  proof (cases "inQuote st")
    case True
    then have q: "isQuote (quoteChar st)" using Cons.prems by simp
    show ?thesis
    proof (cases "c = quoteChar st")
      case same: True
      have s: "st' = st\<lparr>inQuote := False, quoteChar := CHR 0x00\<rparr>"
        using True q same by (auto simp: st'_def tokStep_def isQuote_def)
      show ?thesis
        unfolding R_def s using True same by (simp add: openQuote_def)
    next
      case False
      have s: "st' = st\<lparr>current := current st @ [c]\<rparr>"
        using True False by (auto simp: st'_def tokStep_def)
      show ?thesis
        unfolding R_def s using True False ne by (simp add: openQuote_def glue_cons)
    qed
  next
    case nq: False
    show ?thesis
    proof (cases "isQuote c")
      case True
      have s: "st' = st\<lparr>inQuote := True, quoteChar := c\<rparr>"
        using nq True by (auto simp: st'_def tokStep_def isQuote_def)
      show ?thesis
        unfolding R_def s using True nq by (simp add: openQuote_def)
    next
      case nc: False
      show ?thesis
      proof (cases "c = CHR 0x20")
        case sp: True
        show ?thesis
        proof (cases "current st = []")
          case True
          have s: "st' = st"
            using sp nq nc True by (auto simp: st'_def tokStep_def isQuote_def)
          show ?thesis
            unfolding R_def s using True nq nc sp ne
            by (simp add: openQuote_def glue_def nonEmpty_def)
        next
          case False
          have s: "st' = st\<lparr>args := args st @ [current st], current := []\<rparr>"
            using sp nq nc False by (auto simp: st'_def tokStep_def isQuote_def)
          show ?thesis
            unfolding R_def s using False nq nc sp ne
            by (simp add: openQuote_def glue_def nonEmpty_def)
        qed
      next
        case False
        have s: "st' = st\<lparr>current := current st @ [c]\<rparr>"
          using nq nc False by (auto simp: st'_def tokStep_def isQuote_def)
        show ?thesis
          unfolding R_def s using False nq nc ne
          by (simp add: openQuote_def glue_cons)
      qed
    qed
  qed
  with step show ?case by simp
qed

lemma parse_refines: "parseCommandLine line = specTokens line"
  using run_marked [of tokInit line] splitMarked_ne [of "mark None line"]
  by (simp add: parseCommandLine_def specTokens_def tokInit_def openQuote_def glue_nil_any)

lemma specTokens_nonempty: "[] \<notin> set (specTokens line)"
  by (simp add: specTokens_def nonEmpty_def)

text \<open>
  Claim C7, amended. For every input line the tokenizer yields what the two passes of
  the specification yield: the quote characters, single and double, are consumed, the
  line is cut at the space character (U+0020) outside quotes, and after an unterminated
  quote every remaining character goes into the current token. A tab or any other
  whitespace is an ordinary character of a token. No token is empty, and the empty line
  has no tokens. In particular a line without quote characters yields its non-empty
  space-separated pieces; a quoted stretch is joined to the word around it with its
  spaces kept; and the examples of the specification hold.
\<close>

theorem parseCommandLine_tokens:
  \<open>parseCommandLine ln = specTokens ln
   \<and> [] \<notin> set (parseCommandLine ln)
   \<and> parseCommandLine [] = []
   \<and> (quoteFree line \<longrightarrow> parseCommandLine line = nonEmpty (splitAtSpaces line))
   \<and> (quoteFree pre \<and> quoteFree post \<and> isQuote q \<and> q \<notin> set body \<longrightarrow>
        parseCommandLine (pre @ [q] @ body @ [q] @ post) =
          nonEmpty (butlast (splitAtSpaces pre)
            @ [last (splitAtSpaces pre) @ body @ hd (splitAtSpaces post)]
            @ tl (splitAtSpaces post)))
   \<and> (quoteFree pre \<and> isQuote q \<and> q \<notin> set rest \<longrightarrow>
        parseCommandLine (pre @ [q] @ rest) =
          nonEmpty (butlast (splitAtSpaces pre) @ [last (splitAtSpaces pre) @ rest]))
   \<and> parseCommandLine ''open "my file.txt" here'' = [''open'', ''my file.txt'', ''here'']
   \<and> parseCommandLine ''a "b'' = [''a'', ''b'']
   \<and> parseCommandLine ''cp "a b" "c d"'' = [''cp'', ''a b'', ''c d'']\<close>
proof -
  have r: "parseCommandLine ln = specTokens ln"
    by (rule parse_refines)
  have n: "[] \<notin> set (parseCommandLine ln)"
    unfolding r by (rule specTokens_nonempty)
  have e0: "parseCommandLine [] = []"
    by (simp add: parseCommandLine_def tokFinish_def tokInit_def)
  have e1: \<open>parseCommandLine ''open "my file.txt" here'' = [''open'', ''my file.txt'', ''here'']\<close>
    by (simp add: parseCommandLine_def tokFinish_def tokStep_def tokInit_def)
  have e2: \<open>parseCommandLine ''a "b'' = [''a'', ''b'']\<close>
    by (simp add: parseCommandLine_def tokFinish_def tokStep_def tokInit_def)
  have e3: \<open>parseCommandLine ''cp "a b" "c d"'' = [''cp'', ''a b'', ''c d'']\<close>
    by (simp add: parseCommandLine_def tokFinish_def tokStep_def tokInit_def)
  show ?thesis
    using r n e0 e1 e2 e3 parse_plain parse_quoted parse_unterminated by blast
qed

text \<open>
  Claim C7: the theorem at concrete lines, with its hypotheses discharged. The first
  line has two quoted stretches and an open quote after them.
\<close>

theorem parseCommandLine_tokens_witness:
  \<open>parseCommandLine ''mv "a b" 'c d' "e f'' = specTokens ''mv "a b" 'c d' "e f''
   \<and> specTokens ''mv "a b" 'c d' "e f'' = [''mv'', ''a b'', ''c d'', ''e f'']
   \<and> quoteFree ''open '' \<and> quoteFree '' here'' \<and> isQuote (CHR 0x22)
   \<and> CHR 0x22 \<notin> set ''my file.txt''
   \<and> parseCommandLine (''open '' @ [CHR 0x22] @ ''my file.txt'' @ [CHR 0x22] @ '' here'')
       = [''open'', ''my file.txt'', ''here'']
   \<and> quoteFree ''ls -l  /tmp'' \<and> parseCommandLine ''ls -l  /tmp'' = [''ls'', ''-l'', ''/tmp'']
   \<and> quoteFree ''a '' \<and> CHR 0x22 \<notin> set ''b c''
   \<and> parseCommandLine (''a '' @ [CHR 0x22] @ ''b c'') = [''a'', ''b c'']\<close>
proof -
  have h: \<open>quoteFree ''open ''\<close> \<open>quoteFree '' here''\<close> \<open>isQuote (CHR 0x22)\<close>
    \<open>CHR 0x22 \<notin> set ''my file.txt''\<close> \<open>quoteFree ''ls -l  /tmp''\<close>
    \<open>quoteFree ''a ''\<close> \<open>CHR 0x22 \<notin> set ''b c''\<close>
    by (simp_all add: quoteFree_def isQuote_def)
  have s: \<open>specTokens ''mv "a b" 'c d' "e f'' = [''mv'', ''a b'', ''c d'', ''e f'']\<close>
    by (simp add: specTokens_def isQuote_def nonEmpty_def)
  note g1 = parseCommandLine_tokens [where ln = \<open>''mv "a b" 'c d' "e f''\<close>
      and line = "''ls -l  /tmp''" and pre = "''open ''" and post = "'' here''"
      and q = "CHR 0x22" and body = "''my file.txt''" and rest = "[]"]
  note g2 = parseCommandLine_tokens [where ln = "[]" and line = "[]" and pre = "''a ''"
      and post = "[]" and q = "CHR 0x22" and body = "[]" and rest = "''b c''"]
  from g1 have a: \<open>parseCommandLine ''mv "a b" 'c d' "e f'' = specTokens ''mv "a b" 'c d' "e f''\<close>
    by blast
  from g1 h have b:
    "parseCommandLine (''open '' @ [CHR 0x22] @ ''my file.txt'' @ [CHR 0x22] @ '' here'') =
       nonEmpty (butlast (splitAtSpaces ''open '')
         @ [last (splitAtSpaces ''open '') @ ''my file.txt'' @ hd (splitAtSpaces '' here'')]
         @ tl (splitAtSpaces '' here''))"
    and c: "parseCommandLine ''ls -l  /tmp'' = nonEmpty (splitAtSpaces ''ls -l  /tmp'')"
    by blast+
  from g2 h have d:
    "parseCommandLine (''a '' @ [CHR 0x22] @ ''b c'') =
       nonEmpty (butlast (splitAtSpaces ''a '') @ [last (splitAtSpaces ''a '') @ ''b c''])"
    by blast
  have b': "parseCommandLine (''open '' @ [CHR 0x22] @ ''my file.txt'' @ [CHR 0x22] @ '' here'')
       = [''open'', ''my file.txt'', ''here'']"
    unfolding b by (simp add: nonEmpty_def)
  have c': "parseCommandLine ''ls -l  /tmp'' = [''ls'', ''-l'', ''/tmp'']"
    unfolding c by (simp add: nonEmpty_def)
  have d': "parseCommandLine (''a '' @ [CHR 0x22] @ ''b c'') = [''a'', ''b c'']"
    unfolding d by (simp add: nonEmpty_def)
  show ?thesis
    using h s a b' c' d' by (intro conjI)
qed

text \<open>
  Claim C7 as stated (splitting at whitespace) fails: a tab between two letters does not
  separate them.
\<close>

theorem parseCommandLine_tab_counterexample:
  "parseCommandLine (''a'' @ [CHR 0x09] @ ''b'') = [''a'' @ [CHR 0x09] @ ''b'']
   \<and> parseCommandLine (''a'' @ [CHR 0x09] @ ''b'') \<noteq> [''a'', ''b'']"
  by (simp add: parseCommandLine_def tokFinish_def tokStep_def tokInit_def)

section \<open>Size formatting\<close>

lemma scaleLoop_band:
  "1024 ^ j \<le> n \<Longrightarrow> n < 1024 ^ Suc j \<Longrightarrow> scaleLoop n d ex = (d * 1024 ^ j, ex + j)"
proof (induction j arbitrary: n d ex)
  case 0
  then show ?case by (simp add: scaleLoop.simps)
next
  case (Suc j)
  define X :: int where "X = 1024 ^ j"
  have X: "1 \<le> X" by (simp add: X_def)
  have p1: "1024 * X \<le> n" and p2: "n < 1024 * (1024 * X)"
    using Suc.prems by (simp_all add: X_def)
  have ge: "1024 \<le> n" using X p1 by linarith
  have lo: "1024 ^ j \<le> n div 1024"
    using p1 unfolding X_def [symmetric] by linarith
  have hi: "n div 1024 < 1024 ^ Suc j"
    using p2 unfolding power_Suc X_def [symmetric] by linarith
  have "scaleLoop n d ex = scaleLoop (n div 1024) (d * 1024) (Suc ex)"
    using ge by (subst scaleLoop.simps) simp
  also have "\<dots> = (d * 1024 * 1024 ^ j, Suc ex + j)"
    by (rule Suc.IH [OF lo hi])
  finally show ?case by (simp add: mult.assoc)
qed

lemma sint64_lt: "sint (w :: 64 word) < 1024 ^ 7"
proof -
  have "sint w < 2 ^ (LENGTH(64) - 1)" by (rule sint_lt)
  then show ?thesis by simp
qed

lemma band_exists:
  "(1024::int) \<le> n \<Longrightarrow> \<exists>k. 1024 ^ Suc k \<le> n \<and> n < 1024 ^ Suc (Suc k)"
proof (induction "nat n" arbitrary: n rule: less_induct)
  case less
  show ?case
  proof (cases "n < 1024 * 1024")
    case True
    with less.prems have "1024 ^ Suc 0 \<le> n \<and> n < 1024 ^ Suc (Suc 0)" by simp
    then show ?thesis by blast
  next
    case False
    then have "1024 \<le> n div 1024" by linarith
    moreover have "nat (n div 1024) < nat n" using less.prems by linarith
    ultimately obtain k where k: "1024 ^ Suc k \<le> n div 1024" "n div 1024 < 1024 ^ Suc (Suc k)"
      using less.hyps by blast
    define Y :: int where "Y = 1024 ^ Suc k"
    have "Y \<le> n div 1024" "n div 1024 < 1024 * Y" using k by (simp_all add: Y_def)
    then have "1024 * Y \<le> n \<and> n < 1024 * (1024 * Y)" by linarith
    then have "1024 ^ Suc (Suc k) \<le> n \<and> n < 1024 ^ Suc (Suc (Suc k))"
      by (simp add: Y_def)
    then show ?thesis by blast
  qed
qed

lemma band_small:
  assumes "1024 ^ Suc k \<le> n" "n < (1024::int) ^ 7"
  shows "k < 6"
proof (rule ccontr)
  assume "\<not> k < 6"
  then have "Suc k \<ge> 7" by simp
  then have "(1024::int) ^ 7 \<le> 1024 ^ Suc k" by (intro power_increasing) simp_all
  with assms show False by linarith
qed

lemma DisplaySize_scaled:
  assumes pf: "plainFile e"
    and lo: "1024 ^ Suc k \<le> sint (Size e)" and hi: "sint (Size e) < 1024 ^ Suc (Suc k)"
  shows "k < 6 \<and> DisplaySize e =
           Some (fmtF1 (float64OfNat (nat (sint (Size e)))) (1024 ^ Suc k) @ '' ''
                   @ [''KMGTPE'' ! k] @ ''B'')"
proof -
  define n where "n = sint (Size e)"
  define X :: int where "X = 1024 ^ k"
  define P :: nat where "P = 1024 ^ Suc k"
  have X: "1 \<le> X" by (simp add: X_def)
  have p1: "1024 * X \<le> n" and p2: "n < 1024 * (1024 * X)"
    using lo hi by (simp_all add: X_def n_def)
  have k6: "k < 6" using band_small [OF lo sint64_lt] .
  have ge: "\<not> n < 1024" using X p1 by linarith
  have l1: "1024 ^ k \<le> n div 1024" using p1 unfolding X_def [symmetric] by linarith
  have h1: "n div 1024 < 1024 ^ Suc k" using p2 unfolding power_Suc X_def [symmetric] by linarith
  have "scaleLoop (n div 1024) 1024 0 = (1024 * 1024 ^ k, 0 + k)"
    by (rule scaleLoop_band [OF l1 h1])
  then have sl: "scaleLoop (n div 1024) 1024 0 = (int P, k)"
    by (simp add: P_def)
  have "DisplaySize e =
          Some (fmtF1 (float64OfNat (nat n)) P @ '' '' @ [''KMGTPE'' ! k] @ ''B'')"
    using pf k6 ge
    by (simp add: DisplaySize_def plainFile_def n_def [symmetric] Let_def sl)
  then show ?thesis using k6 by (simp add: P_def n_def)
qed

lemma DisplaySize_total: "DisplaySize e \<noteq> None"
proof (cases "plainFile e \<and> 1024 \<le> sint (Size e)")
  case True
  then obtain k where "1024 ^ Suc k \<le> sint (Size e)" "sint (Size e) < 1024 ^ Suc (Suc k)"
    using band_exists by blast
  with True show ?thesis using DisplaySize_scaled by fastforce
next
  case False
  then show ?thesis by (auto simp: DisplaySize_def plainFile_def Let_def)
qed

text \<open>
  Claim C8. \<open>DisplaySize\<close> shows the mount marker whenever the mode marks a mount point,
  also for a directory; otherwise the directory marker for every directory, whatever its
  size; otherwise the size in bytes below 1024, and above it the size divided by the
  largest power of 1024 not exceeding it, with one decimal and the unit letter. The index
  into the unit letters is always in range. Size 0 renders as \<open>0 B\<close> and size 1536 as
  \<open>1.5 KB\<close>.
\<close>

theorem DisplaySize_rendering:
  "(IsMount (Mode e) \<longrightarrow> DisplaySize e = Some ''<MNT>'')
   \<and> (\<not> IsMount (Mode e) \<and> IsDir e \<longrightarrow> DisplaySize e = Some ''<DIR>'')
   \<and> (plainFile e \<and> sint (Size e) < 1024 \<longrightarrow>
        DisplaySize e = Some (fmtD (sint (Size e)) @ '' B''))
   \<and> (plainFile e \<and> 1024 ^ Suc k \<le> sint (Size e) \<and> sint (Size e) < 1024 ^ Suc (Suc k) \<longrightarrow>
        k < 6 \<and>
        DisplaySize e =
          Some (fmtF1 (float64OfNat (nat (sint (Size e)))) (1024 ^ Suc k) @ '' ''
                  @ [''KMGTPE'' ! k] @ ''B''))
   \<and> DisplaySize e \<noteq> None
   \<and> (plainFile e \<and> Size e = 0 \<longrightarrow> DisplaySize e = Some ''0 B'')
   \<and> (plainFile e \<and> Size e = 1536 \<longrightarrow> DisplaySize e = Some ''1.5 KB'')"
proof -
  have a: "IsMount (Mode e) \<longrightarrow> DisplaySize e = Some ''<MNT>''"
    by (simp add: DisplaySize_def)
  have b: "\<not> IsMount (Mode e) \<and> IsDir e \<longrightarrow> DisplaySize e = Some ''<DIR>''"
    by (simp add: DisplaySize_def)
  have c: "plainFile e \<and> sint (Size e) < 1024 \<longrightarrow>
        DisplaySize e = Some (fmtD (sint (Size e)) @ '' B'')"
    by (simp add: DisplaySize_def plainFile_def)
  have z: "plainFile e \<and> Size e = 0 \<longrightarrow> DisplaySize e = Some ''0 B''"
    by (simp add: DisplaySize_def plainFile_def fmtD_def fmtNat.simps digitChar_def)
  have k: "plainFile e \<and> Size e = 1536 \<longrightarrow> DisplaySize e = Some ''1.5 KB''"
    by (simp add: DisplaySize_def plainFile_def scaleLoop.simps fmtF1_def float64OfNat_def
        bitLen.simps roundHalfEven_def fmtNat.simps digitChar_def Let_def)
  show ?thesis
    using a b c z k DisplaySize_scaled [of e k] DisplaySize_total [of e] by blast
qed

text \<open>Claim C8: the theorem at concrete entries.\<close>

theorem DisplaySize_rendering_witness:
  "plainFile (sampleFile 5242880)
   \<and> (1024::int) ^ Suc 1 \<le> sint (Size (sampleFile 5242880))
   \<and> sint (Size (sampleFile 5242880)) < 1024 ^ Suc (Suc 1)
   \<and> DisplaySize (sampleFile 5242880) = Some ''5.0 MB''
   \<and> DisplaySize (sampleFile 1536) = Some ''1.5 KB''
   \<and> DisplaySize (sampleFile 0) = Some ''0 B''
   \<and> DisplaySize (sampleFile 1023) = Some ''1023 B''
   \<and> DisplaySize ((sampleFile 0)\<lparr>Mode := \<lparr>IsMount = True, ModeIsDir = True\<rparr>, IsDir := True\<rparr>)
        = Some ''<MNT>''
   \<and> DisplaySize ((sampleFile 4096)\<lparr>IsDir := True\<rparr>) = Some ''<DIR>''"
  using DisplaySize_rendering [of "sampleFile 5242880" 1]
    DisplaySize_rendering [of "sampleFile 1536" 0]
    DisplaySize_rendering [of "sampleFile 0" 0]
    DisplaySize_rendering [of "sampleFile 1023" 0]
    DisplaySize_rendering [of "(sampleFile 0)\<lparr>Mode := \<lparr>IsMount = True, ModeIsDir = True\<rparr>, IsDir := True\<rparr>" 0]
    DisplaySize_rendering [of "(sampleFile 4096)\<lparr>IsDir := True\<rparr>" 0]
  by (simp add: sampleFile_def plainFile_def fmtF1_def float64OfNat_def bitLen.simps
      roundHalfEven_def fmtNat.simps digitChar_def fmtD_def Let_def)

section \<open>The preview generation counter\<close>

lemma frame_plain:
  "samePreview m m' \<Longrightarrow> taskGeneration c = None \<Longrightarrow> previewFrame m (m', c)"
  by (simp add: samePreview_def previewFrame_def)

lemma frame_updatePreview:
  "samePreview m m' \<Longrightarrow> showPreview m' = showPreview m \<Longrightarrow> previewFrame m (updatePreview m')"
  by (auto simp: samePreview_def previewFrame_def updatePreview_def taskGeneration_def Let_def
      split: option.splits)

lemma same_refl: "samePreview m m"
  by (simp add: samePreview_def)

lemma moveCursor_fields:
  "previewGen (moveCursor m d) = previewGen m"
  "previewContent (moveCursor m d) = previewContent m"
  "previewError (moveCursor m d) = previewError m"
  "showPreview (moveCursor m d) = showPreview m"
  "terminalHistory (moveCursor m d) = terminalHistory m"
  "commandCounter (moveCursor m d) = commandCounter m"
  "entries (moveCursor m d) = entries m"
  "height (moveCursor m d) = height m"
  by (simp_all add: moveCursor_def Let_def)

lemma same_moveCursor: "samePreview m (moveCursor m d) \<and> showPreview (moveCursor m d) = showPreview m"
  by (simp add: samePreview_def moveCursor_def Let_def)

lemma frame_enterDirectory:
  "samePreview m m' \<Longrightarrow> previewFrame m (enterDirectory m')"
  by (auto simp: samePreview_def previewFrame_def enterDirectory_def taskGeneration_def
      split: option.splits)

lemma frame_goBack: "previewFrame m (goBack libs m)"
  by (auto simp: previewFrame_def goBack_def taskGeneration_def)

lemma same_startInput: "samePreview m (startInput m it p)"
  by (simp add: samePreview_def startInput_def)


lemma frame_if:
  "previewFrame m a \<Longrightarrow> previewFrame m b \<Longrightarrow> previewFrame m (if c then a else b)"
  by simp

lemma frame_option:
  "previewFrame m a \<Longrightarrow> (\<And>e. previewFrame m (f e)) \<Longrightarrow>
   previewFrame m (case x of None \<Rightarrow> a | Some e \<Rightarrow> f e)"
  by (cases x) simp_all

lemma same_if:
  "samePreview m a \<Longrightarrow> samePreview m b \<Longrightarrow> samePreview m (if c then a else b)"
  by simp

lemma frame_normal: "previewFrame m (handleNormalMode libs m k)"
  unfolding handleNormalMode_def Let_def
  by (intro frame_if frame_option frame_updatePreview frame_enterDirectory frame_goBack
        frame_plain)
     (simp_all add: moveCursor_fields taskGeneration_def samePreview_def startInput_def)


lemma frame_submitInput: "previewFrame m (submitInput m)"
  by (auto simp: submitInput_def cancelInput_def Let_def previewFrame_def taskGeneration_def
      renameEntry_def deleteEntry_def split: InputType.splits option.splits)

lemma frame_submitTerminal: "previewFrame m (submitTerminalCommand m)"
  by (simp add: submitTerminalCommand_def Let_def previewFrame_def taskGeneration_def)

lemma frame_keyType:
  "previewFrame m a \<Longrightarrow> previewFrame m b \<Longrightarrow> previewFrame m c \<Longrightarrow>
   previewFrame m (case kt of KeyEscape \<Rightarrow> a | KeyEnter \<Rightarrow> b | KeyOtherType \<Rightarrow> c)"
  by (cases kt) simp_all

lemma frame_input: "previewFrame m (handleInputMode libs m k)"
  unfolding handleInputMode_def
  by (intro frame_keyType frame_if frame_submitInput frame_plain)
     (simp_all add: samePreview_def cancelInput_def taskGeneration_def)

lemma frame_help: "previewFrame m (handleHelpMode m k)"
  by (simp add: handleHelpMode_def previewFrame_def taskGeneration_def)

lemma frame_terminal: "previewFrame m (handleTerminalMode libs m k)"
  unfolding handleTerminalMode_def
  by (intro frame_if frame_submitTerminal frame_plain)
     (simp_all add: taskGeneration_def samePreview_def)

lemma frame_key: "previewFrame m (handleKeyPress libs m k)"
  by (cases "mode m")
     (simp_all add: handleKeyPress_def frame_normal frame_input frame_help frame_terminal)

lemma frame_buttons:
  "previewFrame m a \<Longrightarrow> previewFrame m b \<Longrightarrow> previewFrame m c \<Longrightarrow> previewFrame m d \<Longrightarrow>
   previewFrame m e \<Longrightarrow>
   previewFrame m (case btn of MouseButtonWheelUp \<Rightarrow> a | MouseButtonWheelDown \<Rightarrow> b
      | MouseButtonLeft \<Rightarrow> c | MouseButtonRight \<Rightarrow> d | _ \<Rightarrow> e)"
  by (cases btn) simp_all

lemma frame_mouse: "previewFrame m (handleMouseEvent libs now m mm)"
  unfolding handleMouseEvent_def Let_def
  by (intro frame_if frame_buttons frame_updatePreview frame_enterDirectory frame_goBack
        frame_plain)
     (simp_all add: moveCursor_fields taskGeneration_def samePreview_def)

lemma positionOnPrevious_fields:
  "previewGen (positionOnPrevious m) = previewGen m"
  "previewContent (positionOnPrevious m) = previewContent m"
  "previewError (positionOnPrevious m) = previewError m"
  "showPreview (positionOnPrevious m) = showPreview m"
  "terminalHistory (positionOnPrevious m) = terminalHistory m"
  "commandCounter (positionOnPrevious m) = commandCounter m"
  "entries (positionOnPrevious m) = entries m"
  by (simp_all add: positionOnPrevious_def Let_def split: option.splits)

lemma clampCursor_fields:
  "previewGen (clampCursor m) = previewGen m"
  "previewContent (clampCursor m) = previewContent m"
  "previewError (clampCursor m) = previewError m"
  "showPreview (clampCursor m) = showPreview m"
  "terminalHistory (clampCursor m) = terminalHistory m"
  "commandCounter (clampCursor m) = commandCounter m"
  "entries (clampCursor m) = entries m"
  by (simp_all add: clampCursor_def Let_def)

lemma frame_directoryLoaded: "previewFrame m (directoryLoaded m es)"
  unfolding directoryLoaded_def Let_def
  by (rule frame_updatePreview)
     (simp_all add: samePreview_def positionOnPrevious_fields clampCursor_fields)

lemma frame_Update:
  "\<not> isPreviewLoaded msg \<Longrightarrow> previewFrame m (Update libs now m msg)"
  by (cases msg;
      simp add: Update_def isPreviewLoaded_def frame_directoryLoaded frame_key frame_mouse;
      simp add: previewFrame_def taskGeneration_def)

lemma previewLoaded_gen:
  "previewGen (fst (previewLoaded m c e g)) = previewGen m
   \<and> taskGeneration (snd (previewLoaded m c e g)) = None"
  by (simp add: previewLoaded_def taskGeneration_def)

section \<open>Evaluating runs\<close>

lemmas key_defs =
  key_Matches_def keys_Up_def keys_Down_def keys_PageUp_def keys_PageDown_def keys_Top_def
  keys_Bottom_def keys_Enter_def keys_Back_def keys_Delete_def keys_Rename_def keys_Copy_def
  keys_NewFile_def keys_NewDir_def keys_TogglePreview_def keys_Refresh_def keys_Command_def
  keys_Quit_def keys_Help_def

lemmas run_defs =
  run_def step_def Update_def directoryLoaded_def clampCursor_def positionOnPrevious_def
  previewLoaded_def updatePreview_def currentEntry_def moveCursor_def getVisibleLines_def
  handleKeyPress_def handleNormalMode_def handleTerminalMode_def handleInputMode_def
  handleHelpMode_def enterDirectory_def goBack_def submitTerminalCommand_def
  NewModel_def pressKey_def pressEnter_def fileEntry_def dirEntry_def sampleLibs_def
  typeKey_def parentDir_def filepath_Base_def Let_def

lemma twoDispatches_eval:
  "previewGen twoDispatches = 2" "showPreview twoDispatches" "cursor twoDispatches = 1"
  "entries twoDispatches = [fileEntry ''a.txt'', fileEntry ''b.txt'']"
  "currentPath twoDispatches = ''/''" "offset twoDispatches = 0"
  "mode twoDispatches = ModeNormal"
  by (simp_all add: twoDispatches_def run_defs key_defs)

lemma previewOff_eval:
  "\<not> showPreview previewOff" "previewGen previewOff = 2" "cursor previewOff = 1"
  "mode previewOff = ModeNormal"
  by (simp_all add: previewOff_def twoDispatches_def run_defs key_defs)

section \<open>The generation guard of the preview\<close>

lemma previewLoaded_stale:
  "generation \<noteq> previewGen m \<Longrightarrow> Update libs now m (PreviewLoadedMsg c e generation) = (m, NoCmd)"
  by (simp add: Update_def previewLoaded_def)

lemma previewLoaded_current:
  "Update libs now m (PreviewLoadedMsg c e (previewGen m)) =
     (m\<lparr>previewContent := c, previewError := e\<rparr>, NoCmd)"
  by (simp add: Update_def previewLoaded_def)

lemma updatePreview_dispatch:
  "showPreview m \<Longrightarrow>
   previewGen (fst (updatePreview m)) = previewGen m + 1
   \<and> taskGeneration (snd (updatePreview m)) = Some (previewGen m + 1)"
  by (auto simp: updatePreview_def taskGeneration_def Let_def split: option.splits)

text \<open>
  Claim C1. A preview completion whose generation differs from the model's counter is
  dropped: the model is returned unchanged, with no command. When the counter stands at
  \<open>G2\<close>, that is, when the task of generation \<open>G2\<close> is the last one dispatched, the
  completions of an older generation \<open>G1\<close> and of \<open>G2\<close> leave the model with the
  content and the error of \<open>G2\<close>, in whichever order they arrive. A dispatch increments
  the counter and tags its task with the new value, and the task's message carries that
  tag.
\<close>

theorem preview_generation_guard:
  "(generation \<noteq> previewGen m \<longrightarrow>
      Update libs now m (PreviewLoadedMsg c e generation) = (m, NoCmd))
   \<and> (G1 < G2 \<and> previewGen m = G2 \<longrightarrow>
        fst (Update libs now2 (fst (Update libs now1 m (PreviewLoadedMsg c1 e1 G1)))
               (PreviewLoadedMsg c2 e2 G2))
          = m\<lparr>previewContent := c2, previewError := e2\<rparr>
        \<and> fst (Update libs now2 (fst (Update libs now1 m (PreviewLoadedMsg c2 e2 G2)))
               (PreviewLoadedMsg c1 e1 G1))
          = m\<lparr>previewContent := c2, previewError := e2\<rparr>)
   \<and> (showPreview m \<longrightarrow>
        previewGen (fst (updatePreview m)) = previewGen m + 1
        \<and> taskGeneration (snd (updatePreview m)) = Some (previewGen m + 1))
   \<and> runPreviewEmpty G2 = PreviewLoadedMsg [] None G2
   \<and> (\<exists>c' e'. runPreviewFile vfs lib m path G2 = PreviewLoadedMsg c' e' G2)"
proof -
  have a: "generation \<noteq> previewGen m \<longrightarrow>
      Update libs now m (PreviewLoadedMsg c e generation) = (m, NoCmd)"
    by (simp add: previewLoaded_stale)
  have b: "G1 < G2 \<and> previewGen m = G2 \<longrightarrow>
        fst (Update libs now2 (fst (Update libs now1 m (PreviewLoadedMsg c1 e1 G1)))
               (PreviewLoadedMsg c2 e2 G2))
          = m\<lparr>previewContent := c2, previewError := e2\<rparr>
        \<and> fst (Update libs now2 (fst (Update libs now1 m (PreviewLoadedMsg c2 e2 G2)))
               (PreviewLoadedMsg c1 e1 G1))
          = m\<lparr>previewContent := c2, previewError := e2\<rparr>"
    by (simp add: Update_def previewLoaded_def)
  have d: "runPreviewEmpty G2 = PreviewLoadedMsg [] None G2"
    by (simp add: runPreviewEmpty_def)
  have f: "\<exists>c' e'. runPreviewFile vfs lib m path G2 = PreviewLoadedMsg c' e' G2"
    by (simp add: runPreviewFile_def Let_def)
  show ?thesis
    using a b d f updatePreview_dispatch [of m] by blast
qed

text \<open>Claim C1: the theorem on a reachable model with two dispatched previews.\<close>

theorem preview_generation_guard_witness:
  "(1::int) < 2 \<and> previewGen twoDispatches = 2 \<and> showPreview twoDispatches
   \<and> fst (Update sampleLibs 0
            (fst (Update sampleLibs 0 twoDispatches (PreviewLoadedMsg ''first'' None 1)))
            (PreviewLoadedMsg ''second'' None 2))
       = twoDispatches\<lparr>previewContent := ''second'', previewError := None\<rparr>
   \<and> fst (Update sampleLibs 0
            (fst (Update sampleLibs 0 twoDispatches (PreviewLoadedMsg ''second'' None 2)))
            (PreviewLoadedMsg ''first'' None 1))
       = twoDispatches\<lparr>previewContent := ''second'', previewError := None\<rparr>
   \<and> Update sampleLibs 0 twoDispatches (PreviewLoadedMsg ''first'' None 1)
       = (twoDispatches, NoCmd)
   \<and> previewGen (fst (updatePreview twoDispatches)) = 3"
proof -
  have h: "(1::int) < 2 \<and> previewGen twoDispatches = 2" "showPreview twoDispatches"
    "(1::int) \<noteq> previewGen twoDispatches"
    by (simp_all add: twoDispatches_eval)
  note g =
    preview_generation_guard [where generation = 1 and m = twoDispatches and libs = sampleLibs
      and now = 0 and c = "''first''" and e = None and ?G1.0 = 1 and ?G2.0 = 2
      and ?now1.0 = 0 and ?now2.0 = 0 and ?c1.0 = "''first''" and ?e1.0 = None
      and ?c2.0 = "''second''" and ?e2.0 = None and vfs = emptyFileFS
      and lib = failingImageLib and path = "''/a.txt''"]
  from g h have a:
    "fst (Update sampleLibs 0
            (fst (Update sampleLibs 0 twoDispatches (PreviewLoadedMsg ''first'' None 1)))
            (PreviewLoadedMsg ''second'' None 2))
       = twoDispatches\<lparr>previewContent := ''second'', previewError := None\<rparr>"
    and b:
    "fst (Update sampleLibs 0
            (fst (Update sampleLibs 0 twoDispatches (PreviewLoadedMsg ''second'' None 2)))
            (PreviewLoadedMsg ''first'' None 1))
       = twoDispatches\<lparr>previewContent := ''second'', previewError := None\<rparr>"
    and c: "Update sampleLibs 0 twoDispatches (PreviewLoadedMsg ''first'' None 1)
       = (twoDispatches, NoCmd)"
    and d: "previewGen (fst (updatePreview twoDispatches)) = previewGen twoDispatches + 1"
    by blast+
  from d have d': "previewGen (fst (updatePreview twoDispatches)) = 3"
    by (simp add: twoDispatches_eval)
  show ?thesis
    using h a b c d' by (intro conjI) simp_all
qed

section \<open>A failed directory load\<close>

text \<open>
  Claim C6. When the listing of the directory fails, the load task reports an error
  message, and processing that message sets the model's error text and changes nothing
  else: the entries, the cursor and the scroll offset are as before, and no command is
  issued.
\<close>

theorem failed_directory_load:
  "(ReadDirectory vfs (currentPath m0) = Inl e \<longrightarrow>
      runLoadDirectory libs vfs m0 = ErrorMsg (''Failed to load directory: '' @ e)
      \<and> Update libs now m (runLoadDirectory libs vfs m0)
          = (m\<lparr>errorMsg := ''Failed to load directory: '' @ e\<rparr>, NoCmd))
   \<and> errorMsg (fst (Update libs now m (ErrorMsg t))) = t
   \<and> entries (fst (Update libs now m (ErrorMsg t))) = entries m
   \<and> cursor (fst (Update libs now m (ErrorMsg t))) = cursor m
   \<and> offset (fst (Update libs now m (ErrorMsg t))) = offset m
   \<and> snd (Update libs now m (ErrorMsg t)) = NoCmd"
  by (simp add: runLoadDirectory_def ListDirectory_def Update_def)

text \<open>Claim C6: the theorem on a store whose listing fails.\<close>

theorem failed_directory_load_witness:
  "ReadDirectory failingFS (currentPath twoDispatches) = Inl ''permission denied''
   \<and> Update sampleLibs 0 twoDispatches (runLoadDirectory sampleLibs failingFS twoDispatches)
       = (twoDispatches\<lparr>errorMsg := ''Failed to load directory: permission denied''\<rparr>, NoCmd)
   \<and> entries (fst (Update sampleLibs 0 twoDispatches (ErrorMsg ''permission denied'')))
       = [fileEntry ''a.txt'', fileEntry ''b.txt'']"
proof -
  have h: "ReadDirectory failingFS (currentPath twoDispatches) = Inl ''permission denied''"
    by (simp add: failingFS_def)
  note g =
    failed_directory_load [where vfs = failingFS and ?m0.0 = twoDispatches
      and e = "''permission denied''" and libs = sampleLibs and now = 0 and m = twoDispatches
      and t = "''permission denied''"]
  from g h have a:
    "Update sampleLibs 0 twoDispatches (runLoadDirectory sampleLibs failingFS twoDispatches)
       = (twoDispatches\<lparr>errorMsg := ''Failed to load directory: '' @ ''permission denied''\<rparr>,
          NoCmd)"
    by blast
  from g have b:
    "entries (fst (Update sampleLibs 0 twoDispatches (ErrorMsg ''permission denied'')))
       = entries twoDispatches"
    by blast
  show ?thesis
    using h a b by (intro conjI) (simp_all add: twoDispatches_eval)
qed

section \<open>The preview pane switched off\<close>

text \<open>
  Claim C10. While the preview pane is off, processing a message leaves the generation
  counter as it is and dispatches no preview task, and every message other than a preview
  completion, so every cursor move, leaves the preview content and error as they are.
  Whenever processing a message changes the counter, the pane is shown, the counter has
  grown by one, and a preview task of the new generation is dispatched. The closure of a
  terminal command does not touch the counter.
\<close>

theorem preview_off_frame:
  "(\<not> showPreview m \<longrightarrow>
      previewGen (fst (Update libs now m msg)) = previewGen m
      \<and> taskGeneration (snd (Update libs now m msg)) = None)
   \<and> (\<not> showPreview m \<and> \<not> isPreviewLoaded msg \<longrightarrow>
        previewContent (fst (Update libs now m msg)) = previewContent m
        \<and> previewError (fst (Update libs now m msg)) = previewError m)
   \<and> (previewGen (fst (Update libs now m msg)) \<noteq> previewGen m \<longrightarrow>
        showPreview m
        \<and> previewGen (fst (Update libs now m msg)) = previewGen m + 1
        \<and> taskGeneration (snd (Update libs now m msg)) = Some (previewGen m + 1))
   \<and> previewGen (fst (runTerminalCommand vfs m i cmdLine)) = previewGen m"
proof (cases "isPreviewLoaded msg")
  case True
  then obtain c e g where msg: "msg = PreviewLoadedMsg c e g"
    by (cases msg) (simp_all add: isPreviewLoaded_def)
  have "previewGen (fst (Update libs now m msg)) = previewGen m
        \<and> taskGeneration (snd (Update libs now m msg)) = None"
    using previewLoaded_gen [of m c e g] by (simp add: msg Update_def)
  moreover have "previewGen (fst (runTerminalCommand vfs m i cmdLine)) = previewGen m"
    by (simp add: runTerminalCommand_def Let_def split: prod.splits)
  ultimately show ?thesis using True by simp
next
  case False
  have fr: "previewFrame m (Update libs now m msg)"
    by (rule frame_Update [OF False])
  have "previewGen (fst (runTerminalCommand vfs m i cmdLine)) = previewGen m"
    by (simp add: runTerminalCommand_def Let_def split: prod.splits)
  then show ?thesis
    using fr False unfolding previewFrame_def by (auto split: if_splits)
qed

text \<open>Claim C10: the theorem on a reachable model with the pane off, at a cursor move.\<close>

theorem preview_off_frame_witness:
  "\<not> showPreview previewOff
   \<and> \<not> isPreviewLoaded (KeyPress (KeyMsg KeyOtherType ''up''))
   \<and> previewGen (fst (Update sampleLibs 0 previewOff (KeyPress (KeyMsg KeyOtherType ''up''))))
       = previewGen previewOff
   \<and> taskGeneration (snd (Update sampleLibs 0 previewOff (KeyPress (KeyMsg KeyOtherType ''up''))))
       = None
   \<and> previewContent (fst (Update sampleLibs 0 previewOff (KeyPress (KeyMsg KeyOtherType ''up''))))
       = previewContent previewOff
   \<and> previewError (fst (Update sampleLibs 0 previewOff (KeyPress (KeyMsg KeyOtherType ''up''))))
       = previewError previewOff"
proof -
  have h: "\<not> showPreview previewOff"
    "\<not> isPreviewLoaded (KeyPress (KeyMsg KeyOtherType ''up''))"
    by (simp_all add: previewOff_eval isPreviewLoaded_def)
  show ?thesis
    using h
      preview_off_frame [where m = previewOff and libs = sampleLibs and now = 0
        and msg = "KeyPress (KeyMsg KeyOtherType ''up'')" and vfs = emptyFileFS and i = 0
        and cmdLine = "[]"]
    by blast
qed

section \<open>The terminal history\<close>

lemma hist_plain:
  "terminalHistory m' = terminalHistory m \<Longrightarrow> commandCounter m' = commandCounter m \<Longrightarrow>
   histKeep m (m', c)"
  by (simp add: histKeep_def)

lemma hist_if: "histKeep m a \<Longrightarrow> histKeep m b \<Longrightarrow> histKeep m (if c then a else b)"
  by simp

lemma hist_option:
  "histKeep m a \<Longrightarrow> (\<And>e. histKeep m (f e)) \<Longrightarrow>
   histKeep m (case x of None \<Rightarrow> a | Some e \<Rightarrow> f e)"
  by (cases x) simp_all

lemma hist_keyType:
  "histKeep m a \<Longrightarrow> histKeep m b \<Longrightarrow> histKeep m c \<Longrightarrow>
   histKeep m (case kt of KeyEscape \<Rightarrow> a | KeyEnter \<Rightarrow> b | KeyOtherType \<Rightarrow> c)"
  by (cases kt) simp_all

lemma hist_buttons:
  "histKeep m a \<Longrightarrow> histKeep m b \<Longrightarrow> histKeep m c \<Longrightarrow> histKeep m d \<Longrightarrow> histKeep m e \<Longrightarrow>
   histKeep m (case btn of MouseButtonWheelUp \<Rightarrow> a | MouseButtonWheelDown \<Rightarrow> b
      | MouseButtonLeft \<Rightarrow> c | MouseButtonRight \<Rightarrow> d | _ \<Rightarrow> e)"
  by (cases btn) simp_all

lemma hist_updatePreview:
  "terminalHistory m' = terminalHistory m \<Longrightarrow> commandCounter m' = commandCounter m \<Longrightarrow>
   histKeep m (updatePreview m')"
  by (simp add: histKeep_def updatePreview_def Let_def split: option.splits)

lemma hist_enterDirectory:
  "terminalHistory m' = terminalHistory m \<Longrightarrow> commandCounter m' = commandCounter m \<Longrightarrow>
   histKeep m (enterDirectory m')"
  by (simp add: histKeep_def enterDirectory_def split: option.splits)

lemma hist_goBack: "histKeep m (goBack libs m)"
  by (simp add: histKeep_def goBack_def)

lemma hist_submitInput: "histKeep m (submitInput m)"
  by (simp add: histKeep_def submitInput_def cancelInput_def Let_def split: InputType.splits)

lemma hist_normal: "histKeep m (handleNormalMode libs m k)"
  unfolding handleNormalMode_def Let_def
  by (intro hist_if hist_option hist_updatePreview hist_enterDirectory hist_goBack hist_plain)
     (simp_all add: moveCursor_fields startInput_def)

lemma hist_input: "histKeep m (handleInputMode libs m k)"
  unfolding handleInputMode_def
  by (intro hist_keyType hist_if hist_submitInput hist_plain)
     (simp_all add: cancelInput_def)

lemma hist_help: "histKeep m (handleHelpMode m k)"
  by (simp add: handleHelpMode_def histKeep_def)

lemma hist_mouse: "histKeep m (handleMouseEvent libs now m mm)"
  unfolding handleMouseEvent_def Let_def
  by (intro hist_if hist_buttons hist_updatePreview hist_enterDirectory hist_goBack hist_plain)
     (simp_all add: moveCursor_fields)

lemma hist_directoryLoaded: "histKeep m (directoryLoaded m es)"
  unfolding directoryLoaded_def Let_def
  by (rule hist_updatePreview)
     (simp_all add: positionOnPrevious_fields clampCursor_fields)

lemma terminal_no_submit:
  "keyType k \<noteq> KeyEnter
   \<or> keyString k \<in> set (keys_Command @ keys_Up @ keys_Down @ keys_PageUp @ keys_PageDown) \<Longrightarrow>
   histKeep m (handleTerminalMode libs m k)"
  unfolding handleTerminalMode_def key_Matches_def
  by (auto simp: histKeep_def)

lemma terminal_submit:
  "keyType k = KeyEnter \<Longrightarrow>
   keyString k \<notin> set (keys_Command @ keys_Up @ keys_Down @ keys_PageUp @ keys_PageDown) \<Longrightarrow>
   handleTerminalMode libs m k = submitTerminalCommand m"
  unfolding handleTerminalMode_def key_Matches_def
  by simp

lemma submit_blank:
  "strings_TrimSpace (Value (textInput m)) = [] \<Longrightarrow> histKeep m (submitTerminalCommand m)"
  by (simp add: submitTerminalCommand_def histKeep_def Let_def)

lemma submit_line:
  "strings_TrimSpace (Value (textInput m)) \<noteq> [] \<Longrightarrow>
   terminalHistory (fst (submitTerminalCommand m)) = terminalHistory m @ [newTerminalEntry m]
   \<and> commandCounter (fst (submitTerminalCommand m)) = commandCounter m + 1
   \<and> snd (submitTerminalCommand m)
       = TerminalCmd (length (terminalHistory m)) (strings_TrimSpace (Value (textInput m)))"
  by (simp add: submitTerminalCommand_def newTerminalEntry_def Let_def)

lemma map_update_same: "f y = f (xs ! i) \<Longrightarrow> map f (xs[i := y]) = map f xs"
  by (induction xs arbitrary: i) (auto split: nat.splits)

lemma step_no_submit:
  assumes "\<not> submitsTerminalLine m ev"
  shows "map entryIdent (terminalHistory (step libs vfs m ev)) = map entryIdent (terminalHistory m)
         \<and> commandCounter (step libs vfs m ev) = commandCounter m"
proof (cases ev)
  case (Deliver now msg)
  have "histKeep m (Update libs now m msg)"
  proof (cases msg)
    case (KeyPress k)
    show ?thesis
    proof (cases "mode m")
      case ModeTerminal
      show ?thesis
      proof (cases "keyType k \<noteq> KeyEnter
          \<or> keyString k \<in> set (keys_Command @ keys_Up @ keys_Down @ keys_PageUp @ keys_PageDown)")
        case True
        from terminal_no_submit [OF True] show ?thesis
          by (simp add: KeyPress ModeTerminal Update_def handleKeyPress_def)
      next
        case False
        then have blank: "strings_TrimSpace (Value (textInput m)) = []"
          using assms by (simp add: submitsTerminalLine_def Deliver KeyPress ModeTerminal)
        from False have "handleTerminalMode libs m k = submitTerminalCommand m"
          using terminal_submit [of k libs m] by simp
        with submit_blank [OF blank] show ?thesis
          by (simp add: KeyPress ModeTerminal Update_def handleKeyPress_def)
      qed
    qed (simp_all add: KeyPress Update_def handleKeyPress_def hist_normal hist_input hist_help)
  qed (simp_all add: Update_def hist_directoryLoaded hist_mouse hist_plain
        previewLoaded_def)
  then show ?thesis by (simp add: Deliver step_def histKeep_def)
next
  case (RunTerminal i cmdLine)
  have "map entryIdent ((terminalHistory m)[i := (terminalHistory m ! i)\<lparr>Output := out, Error := er\<rparr>])
          = map entryIdent (terminalHistory m)" for out er
    by (rule map_update_same) (simp add: entryIdent_def)
  then show ?thesis
    by (simp add: RunTerminal step_def runTerminalCommand_def Let_def split: prod.splits)
qed

lemma step_submit:
  assumes "submitsTerminalLine m ev"
  shows "terminalHistory (step libs vfs m ev) = terminalHistory m @ [newTerminalEntry m]
         \<and> commandCounter (step libs vfs m ev) = commandCounter m + 1"
proof -
  from assms obtain now k where ev: "ev = Deliver now (KeyPress k)"
    by (auto simp: submitsTerminalLine_def split: Event.splits Msg.splits)
  from assms have c: "mode m = ModeTerminal" "keyType k = KeyEnter"
    "keyString k \<notin> set (keys_Command @ keys_Up @ keys_Down @ keys_PageUp @ keys_PageDown)"
    "strings_TrimSpace (Value (textInput m)) \<noteq> []"
    by (simp_all add: submitsTerminalLine_def ev)
  have "Update libs now m (KeyPress k) = submitTerminalCommand m"
    using terminal_submit [OF c(2,3)] c(1) by (simp add: Update_def handleKeyPress_def)
  then show ?thesis
    using submit_line [OF c(4)] by (simp add: ev step_def)
qed

lemma histInv_step: "histInv m \<Longrightarrow> histInv (step libs vfs m ev)"
proof (cases "submitsTerminalLine m ev")
  case True
  assume "histInv m"
  with step_submit [OF True, of libs vfs] show ?thesis
    by (simp add: histInv_def newTerminalEntry_def)
next
  case False
  assume inv: "histInv m"
  from step_no_submit [OF False, of libs vfs]
  have s: "map entryIdent (terminalHistory (step libs vfs m ev)) = map entryIdent (terminalHistory m)"
    and c: "commandCounter (step libs vfs m ev) = commandCounter m"
    by simp_all
  from s have "map (fst \<circ> entryIdent) (terminalHistory (step libs vfs m ev))
      = map (fst \<circ> entryIdent) (terminalHistory m)"
    by (metis map_map)
  moreover have "fst \<circ> entryIdent = Number" by (auto simp: entryIdent_def)
  ultimately have n: "map Number (terminalHistory (step libs vfs m ev)) = map Number (terminalHistory m)"
    by simp
  from s have l: "length (terminalHistory (step libs vfs m ev)) = length (terminalHistory m)"
    by (metis length_map)
  show ?thesis using inv n l c by (simp add: histInv_def)
qed

lemma histInv_run: "histInv (run libs vfs evs)"
proof (induction evs rule: rev_induct)
  case Nil
  show ?case by (simp add: run_def histInv_def NewModel_def)
next
  case (snoc ev evs)
  then show ?case using histInv_step [of "run libs vfs evs" libs vfs ev] by (simp add: run_def)
qed

lemma histInv_nth:
  assumes "histInv m" "i < length (terminalHistory m)"
  shows "Number (terminalHistory m ! i) = int i"
proof -
  from assms(1) have "map Number (terminalHistory m) ! i = map int [0..<length (terminalHistory m)] ! i"
    by (simp add: histInv_def)
  with assms(2) show ?thesis by simp
qed

lemmas trim_defs =
  strings_TrimSpace_def trimLeft.simps trimRight.simps leadingSpace_def trailingSpace_def
  asciiSpace_def spaceEncodings_def

lemma typedLs_eval:
  "mode typedLs = ModeTerminal" "Value (textInput typedLs) = ''ls''"
  "terminalHistory typedLs = []" "commandCounter typedLs = 0" "currentPath typedLs = ''/''"
  by (simp_all add: typedLs_def run_defs key_defs)

lemma typedBlank_eval:
  "mode typedBlank = ModeTerminal" "Value (textInput typedBlank) = ''   ''"
  "terminalHistory typedBlank = []" "commandCounter typedBlank = 0"
  by (simp_all add: typedBlank_def run_defs key_defs)

lemma trim_ls: "strings_TrimSpace ''ls'' = ''ls''"
  by (simp add: trim_defs)

lemma trim_blank: "strings_TrimSpace ''   '' = []"
  by (simp add: trim_defs)

text \<open>
  Claim C9, amended. In every run from the initial model the command counter equals the
  length of the terminal history and the entry at position \<open>i\<close> has the number \<open>i\<close>.
  Submitting a terminal line that is not empty after its surrounding whitespace is
  trimmed appends exactly one entry, with the current counter as its number, the current
  path and the trimmed line, and increments the counter by one. Every other event leaves
  the number, the path and the command of every entry, the length of the history and the
  counter unchanged; a line that is empty or of whitespace only is such an event.
\<close>

theorem terminal_history_invariant:
  "histInv (run libs vfs evs)
   \<and> (i < length (terminalHistory (run libs vfs evs)) \<longrightarrow>
        Number (terminalHistory (run libs vfs evs) ! i) = int i)
   \<and> (submitsTerminalLine m ev \<longrightarrow>
        terminalHistory (step libs vfs m ev) = terminalHistory m @ [newTerminalEntry m]
        \<and> commandCounter (step libs vfs m ev) = commandCounter m + 1)
   \<and> (\<not> submitsTerminalLine m ev \<longrightarrow>
        map entryIdent (terminalHistory (step libs vfs m ev)) = map entryIdent (terminalHistory m)
        \<and> commandCounter (step libs vfs m ev) = commandCounter m)
   \<and> (mode m = ModeTerminal \<and> strings_TrimSpace (Value (textInput m)) \<noteq> [] \<longrightarrow>
        submitsTerminalLine m pressEnter)
   \<and> (strings_TrimSpace (Value (textInput m)) = [] \<longrightarrow> \<not> submitsTerminalLine m ev)"
proof -
  have e: "mode m = ModeTerminal \<and> strings_TrimSpace (Value (textInput m)) \<noteq> [] \<longrightarrow>
        submitsTerminalLine m pressEnter"
    by (simp add: submitsTerminalLine_def pressEnter_def key_defs)
  have f: "strings_TrimSpace (Value (textInput m)) = [] \<longrightarrow> \<not> submitsTerminalLine m ev"
    by (auto simp: submitsTerminalLine_def split: Event.splits Msg.splits)
  show ?thesis
    using histInv_run [of libs vfs evs] histInv_nth [of "run libs vfs evs" i]
      step_submit [of m ev libs vfs] step_no_submit [of m ev libs vfs] e f
    by blast
qed

text \<open>Claim C9: the theorem on the model with \<open>ls\<close> typed, at the Enter key.\<close>

theorem terminal_history_invariant_witness:
  "mode typedLs = ModeTerminal \<and> strings_TrimSpace (Value (textInput typedLs)) \<noteq> []
   \<and> submitsTerminalLine typedLs pressEnter
   \<and> terminalHistory (step sampleLibs emptyFileFS typedLs pressEnter)
       = [\<lparr>Number = 0, TermPath = ''/'', Command = ''ls'', Output = [], Error = []\<rparr>]
   \<and> commandCounter (step sampleLibs emptyFileFS typedLs pressEnter) = 1
   \<and> histInv (run sampleLibs emptyFileFS [pressKey ''#'', pressKey ''l'', pressKey ''s'', pressEnter])"
proof -
  have h: "mode typedLs = ModeTerminal \<and> strings_TrimSpace (Value (textInput typedLs)) \<noteq> []"
    by (simp add: typedLs_eval trim_ls)
  note g =
    terminal_history_invariant [where libs = sampleLibs and vfs = emptyFileFS
      and evs = "[pressKey ''#'', pressKey ''l'', pressKey ''s'', pressEnter]" and i = 0
      and m = typedLs and ev = pressEnter]
  from g h have s: "submitsTerminalLine typedLs pressEnter"
    by blast
  from g s have a:
    "terminalHistory (step sampleLibs emptyFileFS typedLs pressEnter)
       = terminalHistory typedLs @ [newTerminalEntry typedLs]"
    and b: "commandCounter (step sampleLibs emptyFileFS typedLs pressEnter)
       = commandCounter typedLs + 1"
    by blast+
  from g have c:
    "histInv (run sampleLibs emptyFileFS [pressKey ''#'', pressKey ''l'', pressKey ''s'', pressEnter])"
    by blast
  show ?thesis
    using h s a b c
    by (intro conjI) (simp_all add: typedLs_eval newTerminalEntry_def trim_ls)
qed

text \<open>
  Claim C9 as stated fails for a line of spaces: the line is not empty, and submitting
  it appends no entry and leaves the counter as it is.
\<close>

theorem blank_line_counterexample:
  "mode typedBlank = ModeTerminal \<and> Value (textInput typedBlank) = ''   ''
   \<and> Value (textInput typedBlank) \<noteq> []
   \<and> terminalHistory (step sampleLibs emptyFileFS typedBlank pressEnter) = []
   \<and> commandCounter (step sampleLibs emptyFileFS typedBlank pressEnter) = 0"
  by (simp add: typedBlank_eval step_def pressEnter_def Update_def handleKeyPress_def
      handleTerminalMode_def key_defs submitTerminalCommand_def trim_blank Let_def)

section \<open>The preview pipeline\<close>

lemma DetectFileType_never_image: "Type (DetectFileType path) \<noteq> PreviewImage"
  by (simp add: DetectFileType_def imageExts_def Let_def)

lemma DetectFileType_image_ext:
  assumes "strings_ToLower (filepath_Ext path) \<in> set imagePreviewExts"
  shows "Type (DetectFileType path) = PreviewBinary"
proof -
  have "strings_ToLower (filepath_Ext path) \<notin> set textExts"
    using assms by (auto simp: imagePreviewExts_def textExts_def)
  moreover have "strings_ToLower (filepath_Ext path) \<in> set binaryExts"
    using assms by (auto simp: imagePreviewExts_def binaryExts_def)
  ultimately show ?thesis
    by (simp add: DetectFileType_def imageExts_def Let_def)
qed

lemma GenerateTextPreview_calls:
  "CallDecode p \<notin> set (calls (GenerateTextPreview vfs path n))"
  by (auto simp: GenerateTextPreview_def
      split: sum.splits prod.splits option.splits ReadErr.splits)

lemma GenerateBinaryPreview_calls:
  "CallDecode p \<notin> set (calls (GenerateBinaryPreview vfs path n))"
  by (auto simp: GenerateBinaryPreview_def Let_def
      split: sum.splits prod.splits option.splits ReadErr.splits)

lemma GeneratePreview_never_decodes:
  "CallDecode p \<notin> set (calls (GeneratePreview vfs lib path w h))"
proof (cases "Type (DetectFileType path)")
  case PreviewText
  then show ?thesis by (simp add: GeneratePreview_def GenerateTextPreview_calls)
next
  case PreviewImage
  then show ?thesis using DetectFileType_never_image by simp
next
  case PreviewBinary
  then show ?thesis by (simp add: GeneratePreview_def GenerateBinaryPreview_calls)
next
  case PreviewUnsupported
  then show ?thesis by (simp add: GeneratePreview_def)
qed

lemma GeneratePreview_image_ext:
  assumes "strings_ToLower (filepath_Ext path) \<in> set imagePreviewExts"
  shows "GeneratePreview vfs lib path w h = GenerateBinaryPreview vfs path 1024"
  using DetectFileType_image_ext [OF assms] by (simp add: GeneratePreview_def)

lemma GenerateImagePreview_too_large:
  assumes "StatMetadata vfs path = Inr stat" "maxImageSize < sint (MetaSize stat)"
  shows "GenerateImagePreview vfs lib path w h =
           \<lparr>content = tooLargeMessage (sint (MetaSize stat)), err = None,
            calls = [CallStat path]\<rparr>"
  using assms by (simp add: GenerateImagePreview_def)

lemmas fmt_defs =
  fmtF1_def float64OfNat_def bitLen.simps roundHalfEven_def fmtNat.simps digitChar_def
  fmtD_def Let_def

lemma tooLarge_six:
  "tooLargeMessage 6291456 =
     ''[Image too large to preview: 6.0 MB]'' @ [CHR 0x0A, CHR 0x0A]
       @ ''Use a dedicated image viewer for files > 5MB''"
  by (simp add: tooLargeMessage_def fmt_defs)

lemma big_png_ext: "strings_ToLower (filepath_Ext ''/photos/big.png'') = ''.png''"
  by (simp add: filepath_Ext_def strings_ToLower_def lowerChar_def)

text \<open>
  Claim C2, amended. \<open>GenerateImagePreview\<close>, the image path of the pipeline, stats the
  file first, and for every file whose stat-reported size exceeds 5 MiB it returns the
  message that the image is too large, with no error, after that one call: the file is
  neither opened nor decoded (for 6 MiB the message reads \<open>6.0 MB\<close>). \<open>GeneratePreview\<close>
  never takes that path: the table of image extensions is empty, no name is classified as
  an image, and a name with one of the extensions png, jpg, jpeg, gif, bmp or webp is
  classified as binary and gets the hex dump of the binary preview. The decoder is
  invoked by no call of \<open>GeneratePreview\<close>.
\<close>

theorem image_preview_guard:
  "Type (DetectFileType path) \<noteq> PreviewImage
   \<and> CallDecode p \<notin> set (calls (GeneratePreview vfs lib path w h))
   \<and> (strings_ToLower (filepath_Ext path) \<in> set imagePreviewExts \<longrightarrow>
        GeneratePreview vfs lib path w h = GenerateBinaryPreview vfs path 1024)
   \<and> (StatMetadata vfs path = Inr stat \<and> maxImageSize < sint (MetaSize stat) \<longrightarrow>
        GenerateImagePreview vfs lib path w h =
          \<lparr>content = tooLargeMessage (sint (MetaSize stat)), err = None,
           calls = [CallStat path]\<rparr>)
   \<and> tooLargeMessage 6291456 =
        ''[Image too large to preview: 6.0 MB]'' @ [CHR 0x0A, CHR 0x0A]
          @ ''Use a dedicated image viewer for files > 5MB''"
  using DetectFileType_never_image [of path] GeneratePreview_never_decodes [of p vfs lib path w h]
    GeneratePreview_image_ext [of path vfs lib w h]
    GenerateImagePreview_too_large [of vfs path stat lib w h] tooLarge_six
  by blast

text \<open>Claim C2: the theorem on the store with the image file of 6 MiB.\<close>

theorem image_preview_guard_witness:
  "strings_ToLower (filepath_Ext ''/photos/big.png'') \<in> set imagePreviewExts
   \<and> StatMetadata bigImageFS ''/photos/big.png'' = Inr (fileMeta ''big.png'' 6291456)
   \<and> maxImageSize < sint (MetaSize (fileMeta ''big.png'' 6291456))
   \<and> GenerateImagePreview bigImageFS failingImageLib ''/photos/big.png'' 40 14 =
        \<lparr>content = tooLargeMessage (sint (MetaSize (fileMeta ''big.png'' 6291456))),
         err = None, calls = [CallStat ''/photos/big.png'']\<rparr>
   \<and> GeneratePreview bigImageFS failingImageLib ''/photos/big.png'' 40 14 =
        GenerateBinaryPreview bigImageFS ''/photos/big.png'' 1024"
proof -
  have h1: "strings_ToLower (filepath_Ext ''/photos/big.png'') \<in> set imagePreviewExts"
    by (simp add: big_png_ext imagePreviewExts_def)
  have h2: "StatMetadata bigImageFS ''/photos/big.png'' = Inr (fileMeta ''big.png'' 6291456)"
    by (simp add: bigImageFS_def)
  have h3: "maxImageSize < sint (MetaSize (fileMeta ''big.png'' 6291456))"
    by (simp add: maxImageSize_def fileMeta_def)
  show ?thesis
    using h1 h2 h3
      image_preview_guard [where path = "''/photos/big.png''" and vfs = bigImageFS
        and lib = failingImageLib and w = 40 and h = 14
        and stat = "fileMeta ''big.png'' 6291456" and p = "''/photos/big.png''"]
    by blast
qed

text \<open>
  Claim C2 as stated fails: for the image file of 6 MiB named \<open>big.png\<close>,
  \<open>GeneratePreview\<close> returns the hex dump of the binary preview, not the message that the
  image is too large.
\<close>

theorem big_image_counterexample:
  "strings_ToLower (filepath_Ext ''/photos/big.png'') = ''.png''
   \<and> StatMetadata bigImageFS ''/photos/big.png'' = Inr (fileMeta ''big.png'' 6291456)
   \<and> maxImageSize < sint (MetaSize (fileMeta ''big.png'' 6291456))
   \<and> content (GeneratePreview bigImageFS failingImageLib ''/photos/big.png'' 40 14) =
        ''Binary file: big.png'' @ [CHR 0x0A] @ ''Size: 6291456 bytes'' @ [CHR 0x0A, CHR 0x0A]
          @ ''Hex dump (first 512 bytes):'' @ [CHR 0x0A] @ replicate 60 (CHR ''-'')
          @ [CHR 0x0A] @ hex_Dump (replicate 512 (CHR 0x00)) @ [CHR 0x0A]
          @ ''... (truncated)''
   \<and> content (GeneratePreview bigImageFS failingImageLib ''/photos/big.png'' 40 14)
        \<noteq> tooLargeMessage 6291456"
proof -
  have d: "Type (DetectFileType ''/photos/big.png'') = PreviewBinary"
    by (simp add: DetectFileType_def big_png_ext imageExts_def textExts_def binaryExts_def)
  have c: "content (GeneratePreview bigImageFS failingImageLib ''/photos/big.png'' 40 14) =
        ''Binary file: big.png'' @ [CHR 0x0A] @ ''Size: 6291456 bytes'' @ [CHR 0x0A, CHR 0x0A]
          @ ''Hex dump (first 512 bytes):'' @ [CHR 0x0A] @ replicate 60 (CHR ''-'')
          @ [CHR 0x0A] @ hex_Dump (replicate 512 (CHR 0x00)) @ [CHR 0x0A]
          @ ''... (truncated)''"
    by (simp add: GeneratePreview_def d GenerateBinaryPreview_def bigImageFS_def io_ReadFull_def
        fileMeta_def filepath_Base_def fmtD_def fmtNat.simps digitChar_def Let_def)
  have n: "content (GeneratePreview bigImageFS failingImageLib ''/photos/big.png'' 40 14)
        \<noteq> tooLargeMessage 6291456"
    unfolding c tooLarge_six by simp
  show ?thesis
    using c n by (simp add: big_png_ext bigImageFS_def maxImageSize_def fileMeta_def)
qed

section \<open>Directories and empty files in the preview\<close>

lemma isValidUTF8_empty: "isValidUTF8 [] = False"
  by (simp add: isValidUTF8_def ratioBelowFivePercent_def)

lemma updatePreview_directory:
  assumes "showPreview m" "currentEntry m = Some e" "IsDir e"
  shows "snd (updatePreview m) = PreviewEmptyCmd (previewGen m + 1)
         \<and> runPreviewEmpty (previewGen m + 1) = PreviewLoadedMsg [] None (previewGen m + 1)"
  using assms by (simp add: updatePreview_def runPreviewEmpty_def Let_def)

lemma GenerateTextPreview_zero_bytes:
  assumes "OpenFile vfs path = Inr ([], AtEOF)"
  shows "GenerateTextPreview vfs path 10240 =
           \<lparr>content = ''[Binary file - cannot preview as text]'', err = None,
            calls = [CallOpen path, CallRead path 10240]\<rparr>"
  using assms by (simp add: GenerateTextPreview_def io_ReadFull_def isValidUTF8_empty)

text \<open>
  Claim C3, at a zero-byte text file. The text path reads no bytes, \<open>isValidUTF8\<close>
  divides zero by zero and rejects the empty data, and the preview is the notice for
  binary files, with no error, where the claim has the empty content.
\<close>

theorem zero_byte_text_preview:
  "Type (DetectFileType ''/notes/empty.txt'') = PreviewText
   \<and> OpenFile emptyFileFS ''/notes/empty.txt'' = Inr ([], AtEOF)
   \<and> GeneratePreview emptyFileFS failingImageLib ''/notes/empty.txt'' 40 14 =
        \<lparr>content = ''[Binary file - cannot preview as text]'', err = None,
         calls = [CallOpen ''/notes/empty.txt'', CallRead ''/notes/empty.txt'' 10240]\<rparr>"
proof -
  have d: "Type (DetectFileType ''/notes/empty.txt'') = PreviewText"
    by (simp add: DetectFileType_def filepath_Ext_def strings_ToLower_def lowerChar_def
        imageExts_def textExts_def)
  have o: "OpenFile emptyFileFS ''/notes/empty.txt'' = Inr ([], AtEOF)"
    by (simp add: emptyFileFS_def)
  show ?thesis
    using d o GenerateTextPreview_zero_bytes [OF o] by (simp add: GeneratePreview_def)
qed

section \<open>The bounds of the cursor\<close>

lemma moveCursor_cursorInv: "cursorInv m \<Longrightarrow> cursorInv (moveCursor m d)"
  by (auto simp: cursorInv_def moveCursor_def Let_def)

lemma clampCursor_cursorInv: "entries m \<noteq> [] \<Longrightarrow> cursorInv (clampCursor m)"
  by (auto simp: cursorInv_def clampCursor_def Let_def)

text \<open>
  Claim C4, at two runs from the initial model. In the first the directory is reloaded
  and found empty while the cursor stands on the second entry: the handler clamps the
  cursor only when the new list is non-empty, and the cursor stays at 1 on an empty list.
  In the second the user goes back to the parent directory and moves the cursor before
  the listing arrives; the arriving list has one entry and does not contain the directory
  left, the branch for the remembered directory does not clamp at all, and the cursor
  stays at 2.
\<close>

theorem cursor_out_of_bounds:
  "entries (run sampleLibs emptyFileFS emptiedReload) = []
   \<and> cursor (run sampleLibs emptyFileFS emptiedReload) = 1
   \<and> \<not> cursorInv (run sampleLibs emptyFileFS emptiedReload)
   \<and> entries (run sampleLibs emptyFileFS backToChangedParent) = [fileEntry ''a.txt'']
   \<and> cursor (run sampleLibs emptyFileFS backToChangedParent) = 2
   \<and> \<not> cursorInv (run sampleLibs emptyFileFS backToChangedParent)"
proof -
  have a: "entries (run sampleLibs emptyFileFS emptiedReload) = []"
    "cursor (run sampleLibs emptyFileFS emptiedReload) = 1"
    by (simp_all add: emptiedReload_def run_defs key_defs)
  have b: "entries (run sampleLibs emptyFileFS backToChangedParent) = [fileEntry ''a.txt'']"
    "cursor (run sampleLibs emptyFileFS backToChangedParent) = 2"
    by (simp_all add: backToChangedParent_def run_defs key_defs)
  show ?thesis
    using a b by (simp add: cursorInv_def)
qed

section \<open>The scroll window\<close>

lemma moveCursor_windowInv: "entries m \<noteq> [] \<Longrightarrow> windowInv (moveCursor m d)"
  by (auto simp: windowInv_def moveCursor_def getVisibleLines_def Let_def)

lemma top_windowInv: "windowInv (m\<lparr>cursor := 0, offset := 0\<rparr>)"
  by (simp add: windowInv_def getVisibleLines_def Let_def)

text \<open>
  Claim C5, at the key for the end of the list. With seventeen entries in a terminal of
  24 rows (sixteen visible lines) the key puts the cursor on the last entry and leaves
  the scroll offset at 0, so the cursor is below the window. Moving there with page-down,
  through \<open>moveCursor\<close>, adjusts the offset and keeps the cursor inside.
\<close>

theorem end_key_leaves_window:
  "cursor (run sampleLibs emptyFileFS endKeyRun) = 16
   \<and> offset (run sampleLibs emptyFileFS endKeyRun) = 0
   \<and> getVisibleLines (run sampleLibs emptyFileFS endKeyRun) = 16
   \<and> \<not> windowInv (run sampleLibs emptyFileFS endKeyRun)
   \<and> cursor (run sampleLibs emptyFileFS pageDownRun) = 16
   \<and> offset (run sampleLibs emptyFileFS pageDownRun) = 1
   \<and> windowInv (run sampleLibs emptyFileFS pageDownRun)"
proof -
  have a: "cursor (run sampleLibs emptyFileFS endKeyRun) = 16"
    "offset (run sampleLibs emptyFileFS endKeyRun) = 0"
    "height (run sampleLibs emptyFileFS endKeyRun) = 24"
    by (simp_all add: endKeyRun_def seventeenFiles_def run_defs key_defs)
  have b: "cursor (run sampleLibs emptyFileFS pageDownRun) = 16"
    "offset (run sampleLibs emptyFileFS pageDownRun) = 1"
    "height (run sampleLibs emptyFileFS pageDownRun) = 24"
    by (simp_all add: pageDownRun_def seventeenFiles_def run_defs key_defs)
  show ?thesis
    using a b by (simp add: windowInv_def getVisibleLines_def)
qed

end
